theory Spec2Isabelle
  imports Complex_Main "HOL-Library.Word"
begin

unbundle bit_operations_syntax

section \<open>The bladeRF radio front end of srsRAN (rf\_blade\_imp.c)\<close>

text \<open>
  The development follows \<^verbatim>\<open>lib/src/phy/rf/rf_blade_imp.c\<close>. The C integers keep
  their widths: \<^verbatim>\<open>uint32_t\<close> is \<open>32 word\<close>, \<^verbatim>\<open>size_t\<close> and \<^verbatim>\<open>uint64_t\<close> are
  \<open>64 word\<close>, the \<^verbatim>\<open>int\<close> parameter \<^verbatim>\<open>nsamples\<close> of the transmit path is a
  \<open>32 word\<close> read with \<open>sint\<close>. Status codes and return values are \<open>int\<close>: the code only
  compares and forwards them. Logging (\<^verbatim>\<open>printf\<close>, \<^verbatim>\<open>ERROR\<close>, \<^verbatim>\<open>perror\<close>) is left out.
\<close>

subsection \<open>libbladeRF as seen from the module\<close>

text \<open>
  \<^verbatim>\<open>BLADERF_RX_X1\<close> ... \<^verbatim>\<open>BLADERF_TX_X2\<close> are used by the source both as channel layouts
  (\<^verbatim>\<open>bladerf_sync_config\<close>) and as channels (\<^verbatim>\<open>bladerf_enable_module\<close>).
\<close>

datatype bladerf_channel_layout = BLADERF_RX_X1 | BLADERF_TX_X1 | BLADERF_RX_X2 | BLADERF_TX_X2

datatype bladerf_format =
  BLADERF_FORMAT_SC16_Q11 | BLADERF_FORMAT_SC16_Q11_META | BLADERF_FORMAT_SC8_Q7 | BLADERF_FORMAT_SC8_Q7_META

datatype bladerf_direction = BLADERF_RX | BLADERF_TX

datatype bladerf_log_level =
  BLADERF_LOG_LEVEL_VERBOSE | BLADERF_LOG_LEVEL_DEBUG | BLADERF_LOG_LEVEL_INFO | BLADERF_LOG_LEVEL_WARNING
  | BLADERF_LOG_LEVEL_ERROR | BLADERF_LOG_LEVEL_CRITICAL | BLADERF_LOG_LEVEL_SILENT

datatype bladerf_tuning_mode = BLADERF_TUNING_MODE_HOST | BLADERF_TUNING_MODE_FPGA

datatype bladerf_gain_mode = BLADERF_GAIN_MGC

text \<open>
  A scratch buffer is a byte array addressed by its offset from the start of the array.
  Offsets from \<open>CONVERT_BUFFER_SIZE\<close> on lie outside the C array.
\<close>

type_synonym buffer = "nat \<Rightarrow> 8 word"

definition CONVERT_BUFFER_SIZE :: "64 word" where
  "CONVERT_BUFFER_SIZE = 128 * 1024 * 2"

definition num_buffers :: nat where "num_buffers = 256"
definition num_transfers :: nat where "num_transfers = 64"
definition timeout_ms :: nat where "timeout_ms = 1000"

record bladerf_metadata =
  m_timestamp :: "64 word"
  m_flags :: "32 word"
  m_status :: "32 word"
  m_actual_count :: "32 word"

definition zero_meta :: bladerf_metadata where
  "zero_meta = \<lparr>m_timestamp = 0, m_flags = 0, m_status = 0, m_actual_count = 0\<rparr>"

text \<open>
  Every call into libbladeRF is recorded with its arguments; for an in-out argument (a
  buffer, the metadata, the timestamp cell) the value on entry is recorded.
\<close>

datatype call =
    Log_set_verbosity bladerf_log_level
  | Open_dev string
  | Close_dev
  | Set_tuning_mode bladerf_tuning_mode
  | Set_gain_mode bladerf_channel_layout bladerf_gain_mode
  | Sync_config bladerf_channel_layout bladerf_format nat nat nat nat
  | Enable_module bladerf_channel_layout bool
  | Get_timestamp bladerf_direction "64 word"
  | Sync_rx buffer "32 word" bladerf_metadata nat
  | Sync_tx buffer "32 word" bladerf_metadata nat
  | Deinterleave_stream_buffer bladerf_channel_layout bladerf_format "32 word" buffer
  | Interleave_stream_buffer bladerf_channel_layout bladerf_format "32 word" buffer

text \<open>
  What a call leaves behind: its status, and the contents of the in-out arguments after
  the call.
\<close>

record reply =
  r_status :: int
  r_buffer :: buffer
  r_meta :: bladerf_metadata
  r_timestamp :: "64 word"

subsection \<open>Fault events\<close>

text \<open>
  \<^verbatim>\<open>srsran_rf_error_t\<close>: the kind of fault and the payload \<^verbatim>\<open>opt\<close>. The message
  pointer is never set by this file and is left out.
\<close>

datatype srsran_rf_error_type =
  SRSRAN_RF_ERROR_LATE | SRSRAN_RF_ERROR_UNDERFLOW | SRSRAN_RF_ERROR_OVERFLOW | SRSRAN_RF_ERROR_RX
  | SRSRAN_RF_ERROR_OTHER

record srsran_rf_error =
  err_type :: srsran_rf_error_type
  err_opt :: "32 word"

subsection \<open>The environment\<close>

text \<open>
  The first field is the library and the device behind it: the reply to the latest call,
  given all the calls made so far (latest first). The other fields are what the headers
  that are not part of the sources provide: the constants of libbladeRF.h and of srsRAN's
  configuration header, the per-element conversions of the vector library
  (\<^verbatim>\<open>srsran_vec_convert_fb\<close>, \<^verbatim>\<open>_fi\<close>, \<^verbatim>\<open>_bf\<close>, \<^verbatim>\<open>_if\<close>), \<^verbatim>\<open>srsran_timestamp_uint64\<close>,
  and the double-precision operations used by \<^verbatim>\<open>timestamp_to_secs\<close>. \<open>'f\<close> stands for
  \<^verbatim>\<open>float\<close>, \<open>'d\<close> for \<^verbatim>\<open>double\<close>; \<^verbatim>\<open>time_t\<close> is \<open>int\<close>.
\<close>

record ('f, 'd) env =
  bladerf :: "call list \<Rightarrow> reply"
  BLADERF_ERR_TIME_PAST :: int
  BLADERF_META_STATUS_OVERRUN :: "32 word"
  BLADERF_META_STATUS_UNDERRUN :: "32 word"
  BLADERF_META_FLAG_RX_NOW :: "32 word"
  BLADERF_META_FLAG_TX_NOW :: "32 word"
  BLADERF_META_FLAG_TX_BURST_START :: "32 word"
  BLADERF_META_FLAG_TX_BURST_END :: "32 word"
  SRSRAN_SUCCESS :: int
  SRSRAN_ERROR :: int
  convert_fb :: "'f \<Rightarrow> real \<Rightarrow> 8 word"
  convert_fi :: "'f \<Rightarrow> real \<Rightarrow> 16 word"
  convert_bf :: "8 word \<Rightarrow> real \<Rightarrow> 'f"
  convert_if :: "16 word \<Rightarrow> real \<Rightarrow> 'f"
  srsran_timestamp_uint64 :: "int \<Rightarrow> 'd \<Rightarrow> 32 word \<Rightarrow> 64 word"
  double_of_u64 :: "64 word \<Rightarrow> 'd"
  double_of_u32 :: "32 word \<Rightarrow> 'd"
  double_of_time :: "int \<Rightarrow> 'd"
  time_of_double :: "'d \<Rightarrow> int"
  double_div :: "'d \<Rightarrow> 'd \<Rightarrow> 'd"
  double_sub :: "'d \<Rightarrow> 'd \<Rightarrow> 'd"

subsection \<open>The session\<close>

text \<open>
  \<^verbatim>\<open>rf_blade_handler_t\<close>. The device pointer \<^verbatim>\<open>dev\<close> is not a field here: there is one
  device, and its state is the history of calls. The unused \<^verbatim>\<open>info\<close> is left out.
\<close>

record rf_blade_handler =
  nof_tx_channels :: "32 word"
  nof_rx_channels :: "32 word"
  tx_rate :: "32 word"
  rx_rate :: "32 word"
  iq_scale :: real
  sample_size :: "64 word"
  format :: bladerf_format
  buffer_format :: bladerf_format
  rx_buffer :: buffer
  tx_buffer :: buffer
  rx_stream_enabled :: bool
  tx_stream_enabled :: bool

text \<open>
  The state of the process: the handler, the two static variables of the file
  (\<^verbatim>\<open>blade_error_handler\<close>, a function pointer, \<open>None\<close> when \<^verbatim>\<open>NULL\<close>, and its
  argument), the calls made into libbladeRF (latest first) and the invocations of the
  error handler (latest first). A callback is opaque: invoking it is recorded and has no
  other effect on this state.
\<close>

record rf_state =
  handler :: rf_blade_handler
  blade_error_handler :: "nat option"
  blade_error_handler_arg :: nat
  calls :: "call list"
  faults :: "(nat \<times> nat \<times> srsran_rf_error) list"

definition lib_call :: "('f, 'd) env \<Rightarrow> call \<Rightarrow> rf_state \<Rightarrow> reply \<times> rf_state" where
  "lib_call E c s = (bladerf E (c # calls s), s\<lparr>calls := c # calls s\<rparr>)"

definition rf_blade_register_error_handler :: "nat option \<Rightarrow> nat \<Rightarrow> rf_state \<Rightarrow> rf_state" where
  "rf_blade_register_error_handler new_handler arg s =
     s\<lparr>blade_error_handler := new_handler, blade_error_handler_arg := arg\<rparr>"

subsection \<open>Stream start and stop\<close>

text \<open>
  \<^verbatim>\<open>2048 + 1024 * (int)(rate / 1e7)\<close>: the quotient of a 32-bit rate by \<open>10\<^sup>7\<close> in double
  precision truncates to the integer quotient.
\<close>

definition stream_buffer_size :: "32 word \<Rightarrow> nat" where
  "stream_buffer_size rate = 2048 + 1024 * (unat rate div 10000000)"

text \<open>The \<^verbatim>\<open>bladerf_sync_config\<close> call of \<^verbatim>\<open>rf_blade_start_tx_stream\<close>.\<close>

definition tx_sync_config_call :: "rf_blade_handler \<Rightarrow> call" where
  "tx_sync_config_call h =
     Sync_config (if nof_tx_channels h = 1 then BLADERF_TX_X1 else BLADERF_TX_X2) (format h)
       num_buffers (stream_buffer_size (tx_rate h)) num_transfers timeout_ms"

definition rf_blade_start_tx_stream :: "('f, 'd) env \<Rightarrow> rf_state \<Rightarrow> int \<times> rf_state" where
  "rf_blade_start_tx_stream E s =
     (let h = handler s;
          (r1, s1) = lib_call E (tx_sync_config_call h) s
      in if r_status r1 \<noteq> 0 then (r_status r1, s1)
         else let (r2, s2) = lib_call E (Enable_module BLADERF_TX_X1 True) s1
              in if r_status r2 \<noteq> 0 then (r_status r2, s2)
                 else if nof_tx_channels h > 1 then
                        (let (r3, s3) = lib_call E (Enable_module BLADERF_TX_X2 True) s2
                         in if r_status r3 \<noteq> 0 then (r_status r3, s3)
                            else (0, s3\<lparr>handler := (handler s3)\<lparr>tx_stream_enabled := True\<rparr>\<rparr>))
                      else (0, s2\<lparr>handler := (handler s2)\<lparr>tx_stream_enabled := True\<rparr>\<rparr>))"

definition rf_blade_start_rx_stream :: "('f, 'd) env \<Rightarrow> rf_state \<Rightarrow> int \<times> rf_state" where
  "rf_blade_start_rx_stream E s =
     (let h = handler s;
          (r1, s1) = lib_call E (Sync_config (if nof_rx_channels h = 1 then BLADERF_RX_X1 else BLADERF_RX_X2)
                                   (format h) num_buffers (stream_buffer_size (rx_rate h))
                                   num_transfers timeout_ms) s
      in if r_status r1 \<noteq> 0 then (r_status r1, s1)
         else let (r2, s2) = lib_call E (Enable_module BLADERF_RX_X1 True) s1
              in if r_status r2 \<noteq> 0 then (r_status r2, s2)
                 else if nof_rx_channels h > 1 then
                        (let (r3, s3) = lib_call E (Enable_module BLADERF_RX_X2 True) s2
                         in if r_status r3 \<noteq> 0 then (r_status r3, s3)
                            else (0, s3\<lparr>handler := (handler s3)\<lparr>rx_stream_enabled := True\<rparr>\<rparr>))
                      else (0, s2\<lparr>handler := (handler s2)\<lparr>rx_stream_enabled := True\<rparr>\<rparr>))"

text \<open>
  \<^verbatim>\<open>rf_blade_stop_rx_stream\<close>: one step per module, in the order RX1, RX2, TX1, TX2;
  the first nonzero status is returned at once.
\<close>

definition disable_module :: "('f, 'd) env \<Rightarrow> bladerf_channel_layout \<Rightarrow> rf_state \<Rightarrow> int \<times> rf_state" where
  "disable_module E ch s = (let (r, s') = lib_call E (Enable_module ch False) s in (r_status r, s'))"

definition rf_blade_stop_rx_stream :: "('f, 'd) env \<Rightarrow> rf_state \<Rightarrow> int \<times> rf_state" where
  "rf_blade_stop_rx_stream E s =
     (let h = handler s;
          (st1, s1) = disable_module E BLADERF_RX_X1 s
      in if st1 \<noteq> 0 then (st1, s1)
         else let (st2, s2) = (if nof_rx_channels h > 1 then disable_module E BLADERF_RX_X2 s1 else (0, s1))
              in if st2 \<noteq> 0 then (st2, s2)
                 else let (st3, s3) = disable_module E BLADERF_TX_X1 s2
                      in if st3 \<noteq> 0 then (st3, s3)
                         else let (st4, s4) = (if nof_tx_channels h > 1 then disable_module E BLADERF_TX_X2 s3
                                               else (0, s3))
                              in if st4 \<noteq> 0 then (st4, s4)
                                 else (0, s4\<lparr>handler := (handler s4)\<lparr>rx_stream_enabled := False,
                                                                     tx_stream_enabled := False\<rparr>\<rparr>))"

subsection \<open>Time stamps\<close>

text \<open>
  An output pointer is \<open>None\<close> when it is \<^verbatim>\<open>NULL\<close> and \<open>Some v\<close> when it points to a cell
  holding \<open>v\<close>; the function returns the cells after the call.
\<close>

definition timestamp_to_secs ::
  "('f, 'd) env \<Rightarrow> 32 word \<Rightarrow> 64 word \<Rightarrow> int option \<Rightarrow> 'd option \<Rightarrow> int option \<times> 'd option" where
  "timestamp_to_secs E rate timestamp secs frac_secs =
     (let totalsecs = double_div E (double_of_u64 E timestamp) (double_of_u32 E rate);
          secs_i = time_of_double E totalsecs
      in (if secs \<noteq> None then Some secs_i else secs,
          if frac_secs \<noteq> None then Some (double_sub E totalsecs (double_of_time E secs_i)) else frac_secs))"

text \<open>
  \<^verbatim>\<open>rf_blade_get_time\<close> returns \<^verbatim>\<open>void\<close>. Its local \<^verbatim>\<open>meta\<close> is not initialised: the
  value it starts with is the argument \<open>meta\<close>. The status of the call is only logged.
\<close>

definition rf_blade_get_time ::
  "('f, 'd) env \<Rightarrow> rf_state \<Rightarrow> bladerf_metadata \<Rightarrow> int option \<Rightarrow> 'd option
     \<Rightarrow> (int option \<times> 'd option) \<times> rf_state" where
  "rf_blade_get_time E s meta secs frac_secs =
     (let (r, s1) = lib_call E (Get_timestamp BLADERF_RX (m_timestamp meta)) s;
          meta1 = meta\<lparr>m_timestamp := r_timestamp r\<rparr>
      in (timestamp_to_secs E (rx_rate (handler s1)) (m_timestamp meta1) secs frac_secs, s1))"

subsection \<open>The sample codec on the scratch buffers\<close>

text \<open>
  A 16-bit sample occupies two bytes, low byte first (the hosts the module is built for
  are little-endian).
\<close>

definition read_i16 :: "buffer \<Rightarrow> nat \<Rightarrow> 16 word" where
  "read_i16 b j = word_cat (b (2 * j + 1)) (b (2 * j))"

definition i16_byte :: "16 word \<Rightarrow> nat \<Rightarrow> 8 word" where
  "i16_byte w a = (if even a then ucast w else ucast (drop_bit 8 w))"

text \<open>
  Modelled from the spec: the vector conversions \<^verbatim>\<open>srsran_vec_convert_fb\<close>,
  \<^verbatim>\<open>srsran_vec_convert_fi\<close>, \<^verbatim>\<open>srsran_vec_convert_bf\<close> and \<^verbatim>\<open>srsran_vec_convert_if\<close> (vector.h
  is not part of the sources). They convert \<open>len\<close> scalar components one by one and have
  no side effect beyond writing the destination. The destination of the first two is the
  scratch buffer at element offset \<open>off\<close> (bytes for \<open>fb\<close>, 16-bit samples for \<open>fi\<close>); the
  source of the last two is the scratch buffer at element offset \<open>off\<close>.
\<close>

definition srsran_vec_convert_fb ::
  "('f, 'd) env \<Rightarrow> (nat \<Rightarrow> 'f) \<Rightarrow> real \<Rightarrow> buffer \<Rightarrow> nat \<Rightarrow> 32 word \<Rightarrow> buffer" where
  "srsran_vec_convert_fb E x scale b off len =
     (\<lambda>a. if off \<le> a \<and> a < off + unat len then convert_fb E (x (a - off)) scale else b a)"

definition srsran_vec_convert_fi ::
  "('f, 'd) env \<Rightarrow> (nat \<Rightarrow> 'f) \<Rightarrow> real \<Rightarrow> buffer \<Rightarrow> nat \<Rightarrow> 32 word \<Rightarrow> buffer" where
  "srsran_vec_convert_fi E x scale b off len =
     (\<lambda>a. if 2 * off \<le> a \<and> a < 2 * off + 2 * unat len
          then i16_byte (convert_fi E (x ((a - 2 * off) div 2)) scale) a else b a)"

definition srsran_vec_convert_bf ::
  "('f, 'd) env \<Rightarrow> buffer \<Rightarrow> nat \<Rightarrow> real \<Rightarrow> (nat \<Rightarrow> 'f) \<Rightarrow> 32 word \<Rightarrow> (nat \<Rightarrow> 'f)" where
  "srsran_vec_convert_bf E b off scale z len =
     (\<lambda>k. if k < unat len then convert_bf E (b (off + k)) scale else z k)"

definition srsran_vec_convert_if ::
  "('f, 'd) env \<Rightarrow> buffer \<Rightarrow> nat \<Rightarrow> real \<Rightarrow> (nat \<Rightarrow> 'f) \<Rightarrow> 32 word \<Rightarrow> (nat \<Rightarrow> 'f)" where
  "srsran_vec_convert_if E b off scale z len =
     (\<lambda>k. if k < unat len then convert_if E (read_i16 b (off + k)) scale else z k)"

text \<open>\<^verbatim>\<open>memset(b + off, 0, len)\<close>.\<close>

definition memset_zero :: "buffer \<Rightarrow> nat \<Rightarrow> nat \<Rightarrow> buffer" where
  "memset_zero b off len = (\<lambda>a. if off \<le> a \<and> a < off + len then 0 else b a)"

subsection \<open>Dispatching a fault\<close>

text \<open>
  \<^verbatim>\<open>if (blade_error_handler) { ...; blade_error_handler(blade_error_handler_arg, error); }\<close>
  and nothing but a log line otherwise.
\<close>

definition report_fault :: "rf_state \<Rightarrow> srsran_rf_error \<Rightarrow> rf_state" where
  "report_fault s e =
     (case blade_error_handler s of
        None \<Rightarrow> s
      | Some f \<Rightarrow> s\<lparr>faults := (f, blade_error_handler_arg s, e) # faults s\<rparr>)"

subsection \<open>Receive\<close>

text \<open>
  The capacity test of line 551: \<^verbatim>\<open>2 * nsamples\<close> is a product of \<^verbatim>\<open>unsigned int\<close>, and
  is converted to \<^verbatim>\<open>size_t\<close> for the two other factors.
\<close>

definition rx_capacity_exceeded :: "rf_blade_handler \<Rightarrow> 32 word \<Rightarrow> bool" where
  "rx_capacity_exceeded h nsamples \<longleftrightarrow>
     ucast (2 * nsamples) * sample_size h * ucast (nof_rx_channels h) > CONVERT_BUFFER_SIZE"

text \<open>
  The overrun branch (lines 560 to 574). The local \<^verbatim>\<open>error\<close> is not initialised: what it
  starts with is the argument \<open>error\<close>. The quotient is computed only when a handler is
  registered; a division by zero has no defined result (\<open>None\<close>).
\<close>

definition rx_overrun ::
  "('f, 'd) env \<Rightarrow> rf_state \<Rightarrow> srsran_rf_error \<Rightarrow> 32 word \<Rightarrow> bladerf_metadata \<Rightarrow> rf_state option" where
  "rx_overrun E s error nsamples meta =
     (if m_status meta AND BLADERF_META_STATUS_OVERRUN E \<noteq> 0 then
        (case blade_error_handler s of
           None \<Rightarrow> Some s
         | Some f \<Rightarrow>
             if nof_rx_channels (handler s) = 0 then None
             else Some (s\<lparr>faults :=
                    (f, blade_error_handler_arg s,
                     if nsamples \<noteq> m_actual_count meta div nof_rx_channels (handler s)
                     then error\<lparr>err_opt := m_actual_count meta, err_type := SRSRAN_RF_ERROR_OVERFLOW\<rparr>
                     else error\<lparr>err_type := SRSRAN_RF_ERROR_UNDERFLOW\<rparr>) # faults s\<rparr>))
      else Some s)"

text \<open>
  One round of the loop of lines 589 to 598. \<open>data i\<close> is \<open>None\<close> for a \<^verbatim>\<open>NULL\<close> pointer,
  and the caller's array otherwise; the arrays of different channels do not overlap.
  The offset \<^verbatim>\<open>2 * nsamples * i\<close> is a product of \<^verbatim>\<open>uint32_t\<close>.
\<close>

definition rx_convert_channel ::
  "('f, 'd) env \<Rightarrow> rf_blade_handler \<Rightarrow> 32 word \<Rightarrow> nat \<Rightarrow> (nat \<Rightarrow> (nat \<Rightarrow> 'f) option)
     \<Rightarrow> (nat \<Rightarrow> (nat \<Rightarrow> 'f) option)" where
  "rx_convert_channel E h nsamples i data =
     (case data i of
        None \<Rightarrow> data
      | Some z \<Rightarrow>
          if buffer_format h = BLADERF_FORMAT_SC8_Q7
          then data(i := Some (srsran_vec_convert_bf E (rx_buffer h) (unat (2 * nsamples * of_nat i))
                                 (iq_scale h) z (2 * nsamples)))
          else data(i := Some (srsran_vec_convert_if E (rx_buffer h) (unat (2 * nsamples * of_nat i))
                                 (iq_scale h) z (2 * nsamples))))"

text \<open>The two library calls of the receive path, with the arguments the source gives them.\<close>

definition rx_transfer_call :: "('f, 'd) env \<Rightarrow> rf_blade_handler \<Rightarrow> 32 word \<Rightarrow> call" where
  "rx_transfer_call E h nsamples =
     Sync_rx (rx_buffer h) (nsamples * nof_rx_channels h)
       (zero_meta\<lparr>m_flags := BLADERF_META_FLAG_RX_NOW E\<rparr>) timeout_ms"

definition rx_deinterleave_call :: "rf_blade_handler \<Rightarrow> bladerf_metadata \<Rightarrow> buffer \<Rightarrow> call" where
  "rx_deinterleave_call h meta buf =
     Deinterleave_stream_buffer (if nof_rx_channels h = 1 then BLADERF_RX_X1 else BLADERF_RX_X2)
       (buffer_format h) (m_actual_count meta * nof_rx_channels h) buf"

record ('f, 'd) recv_result =
  rv_ret :: int
  rv_data :: "nat \<Rightarrow> (nat \<Rightarrow> 'f) option"
  rv_secs :: "int option"
  rv_frac_secs :: "'d option"
  rv_state :: rf_state

text \<open>
  \<^verbatim>\<open>rf_blade_recv_with_time_multi\<close>. The result is \<open>None\<close> where C gives the call no
  defined behaviour (a division by a channel count of zero). The returned \<^verbatim>\<open>int\<close> is the
  \<^verbatim>\<open>uint32_t\<close> count read as a signed value.
\<close>

definition rf_blade_recv_with_time_multi ::
  "('f, 'd) env \<Rightarrow> rf_state \<Rightarrow> srsran_rf_error \<Rightarrow> (nat \<Rightarrow> (nat \<Rightarrow> 'f) option) \<Rightarrow> 32 word
     \<Rightarrow> int option \<Rightarrow> 'd option \<Rightarrow> ('f, 'd) recv_result option" where
  "rf_blade_recv_with_time_multi E s error data nsamples secs frac_secs =
     (let h = handler s
      in if rx_capacity_exceeded h nsamples
         then Some \<lparr>rv_ret = - 1, rv_data = data, rv_secs = secs, rv_frac_secs = frac_secs, rv_state = s\<rparr>
         else
           let (r, s1) = lib_call E (rx_transfer_call E h nsamples) s;
               s2 = s1\<lparr>handler := h\<lparr>rx_buffer := r_buffer r\<rparr>\<rparr>;
               meta = r_meta r
           in if r_status r \<noteq> 0
              then Some \<lparr>rv_ret = - 1, rv_data = data, rv_secs = secs, rv_frac_secs = frac_secs,
                          rv_state = s2\<rparr>
              else
                (case rx_overrun E s2 error nsamples meta of
                   None \<Rightarrow> None
                 | Some s3 \<Rightarrow>
                     let (secs1, frac_secs1) = timestamp_to_secs E (rx_rate h) (m_timestamp meta) secs frac_secs;
                         (rd, s4) = lib_call E (rx_deinterleave_call h meta (rx_buffer (handler s3))) s3;
                         s5 = s4\<lparr>handler := (handler s4)\<lparr>rx_buffer := r_buffer rd\<rparr>\<rparr>
                     in if r_status rd \<noteq> 0
                        then Some \<lparr>rv_ret = - 1, rv_data = data, rv_secs = secs1, rv_frac_secs = frac_secs1,
                                    rv_state = s5\<rparr>
                        else if nof_rx_channels h = 0 then None
                        else
                          let nsamples1 = m_actual_count meta div nof_rx_channels h
                          in Some \<lparr>rv_ret = sint nsamples1,
                                   rv_data = fold (rx_convert_channel E (handler s5) nsamples1)
                                               [0..<unat (nof_rx_channels h)] data,
                                   rv_secs = secs1, rv_frac_secs = frac_secs1, rv_state = s5\<rparr>))"

subsection \<open>Transmit\<close>

text \<open>
  \<^verbatim>\<open>2 * nsamples\<close> with \<^verbatim>\<open>int nsamples\<close> is a signed product: C leaves its overflow
  undefined.
\<close>

definition mul2_overflows :: "32 word \<Rightarrow> bool" where
  "mul2_overflows nsamples \<longleftrightarrow> \<not> (- (2 ^ 31) \<le> 2 * sint nsamples \<and> 2 * sint nsamples < 2 ^ 31)"

text \<open>
  The capacity test of line 627: the signed product is converted to \<^verbatim>\<open>size_t\<close> (with
  its sign) for the two other factors.
\<close>

definition tx_capacity_exceeded :: "rf_blade_handler \<Rightarrow> 32 word \<Rightarrow> bool" where
  "tx_capacity_exceeded h nsamples \<longleftrightarrow>
     scast (2 * nsamples) * sample_size h * ucast (nof_tx_channels h) > CONVERT_BUFFER_SIZE"

text \<open>
  One round of the loop of lines 633 to 644. The element offset \<^verbatim>\<open>2 * nsamples * i\<close> is
  a product of \<^verbatim>\<open>unsigned int\<close>; the byte offset and the length of the \<^verbatim>\<open>memset\<close> are
  products of \<^verbatim>\<open>size_t\<close>.
\<close>

definition tx_convert_channel ::
  "('f, 'd) env \<Rightarrow> rf_blade_handler \<Rightarrow> (nat \<Rightarrow> (nat \<Rightarrow> 'f) option) \<Rightarrow> 32 word \<Rightarrow> nat \<Rightarrow> buffer \<Rightarrow> buffer" where
  "tx_convert_channel E h data nsamples i buf =
     (case data i of
        Some x \<Rightarrow>
          if buffer_format h = BLADERF_FORMAT_SC8_Q7
          then srsran_vec_convert_fb E x (iq_scale h) buf (unat (2 * nsamples * of_nat i)) (2 * nsamples)
          else srsran_vec_convert_fi E x (iq_scale h) buf (unat (2 * nsamples * of_nat i)) (2 * nsamples)
      | None \<Rightarrow>
          memset_zero buf (unat (ucast (2 * nsamples * of_nat i) * sample_size h))
            (unat (scast (2 * nsamples) * sample_size h)))"

definition tx_convert_loop ::
  "('f, 'd) env \<Rightarrow> rf_blade_handler \<Rightarrow> (nat \<Rightarrow> (nat \<Rightarrow> 'f) option) \<Rightarrow> 32 word \<Rightarrow> buffer" where
  "tx_convert_loop E h data nsamples =
     fold (tx_convert_channel E h data nsamples) [0..<unat (nof_tx_channels h)] (tx_buffer h)"

text \<open>The metadata of the transfer (lines 655 to 668).\<close>

definition tx_metadata ::
  "('f, 'd) env \<Rightarrow> rf_blade_handler \<Rightarrow> int \<Rightarrow> 'd \<Rightarrow> bool \<Rightarrow> bool \<Rightarrow> bool \<Rightarrow> bladerf_metadata" where
  "tx_metadata E h secs frac_secs has_time_spec is_start_of_burst is_end_of_burst =
     (let m1 = (if is_start_of_burst
                then (let m = (if has_time_spec
                               then zero_meta\<lparr>m_timestamp := srsran_timestamp_uint64 E secs frac_secs (tx_rate h)\<rparr>
                               else zero_meta\<lparr>m_flags := m_flags zero_meta OR BLADERF_META_FLAG_TX_NOW E\<rparr>)
                      in m\<lparr>m_flags := m_flags m OR BLADERF_META_FLAG_TX_BURST_START E\<rparr>)
                else zero_meta)
      in if is_end_of_burst then m1\<lparr>m_flags := m_flags m1 OR BLADERF_META_FLAG_TX_BURST_END E\<rparr> else m1)"

text \<open>The lazy start of lines 623 to 625: the status of the start is dropped.\<close>

definition tx_lazy_start :: "('f, 'd) env \<Rightarrow> rf_state \<Rightarrow> rf_state" where
  "tx_lazy_start E s = (if \<not> tx_stream_enabled (handler s) then snd (rf_blade_start_tx_stream E s) else s)"

text \<open>The two library calls of the transmit path, with the arguments the source gives them.\<close>

definition tx_interleave_call :: "rf_blade_handler \<Rightarrow> 32 word \<Rightarrow> buffer \<Rightarrow> call" where
  "tx_interleave_call h nsamples buf =
     Interleave_stream_buffer (if nof_tx_channels h = 1 then BLADERF_TX_X1 else BLADERF_TX_X2)
       (buffer_format h) (nsamples * nof_tx_channels h) buf"

definition tx_transfer_call :: "rf_blade_handler \<Rightarrow> 32 word \<Rightarrow> buffer \<Rightarrow> bladerf_metadata \<Rightarrow> call" where
  "tx_transfer_call h nsamples buf meta = Sync_tx buf (nsamples * nof_tx_channels h) meta timeout_ms"

text \<open>
  \<^verbatim>\<open>rf_blade_send_timed_multi\<close>. The result is \<open>None\<close> where the signed product
  \<^verbatim>\<open>2 * nsamples\<close> overflows. The local \<^verbatim>\<open>error\<close> is zeroed: its kind is the enumerator
  of value 0 and is overwritten before every use.
\<close>

definition rf_blade_send_timed_multi ::
  "('f, 'd) env \<Rightarrow> rf_state \<Rightarrow> (nat \<Rightarrow> (nat \<Rightarrow> 'f) option) \<Rightarrow> 32 word \<Rightarrow> int \<Rightarrow> 'd \<Rightarrow> bool \<Rightarrow> bool \<Rightarrow> bool
     \<Rightarrow> (int \<times> rf_state) option" where
  "rf_blade_send_timed_multi E s data nsamples secs frac_secs has_time_spec is_start_of_burst is_end_of_burst =
     (let s0 = tx_lazy_start E s;
          h = handler s0
      in if mul2_overflows nsamples then None
         else if tx_capacity_exceeded h nsamples then Some (- 1, s0)
         else
           let buf = tx_convert_loop E h data nsamples;
               s1 = s0\<lparr>handler := h\<lparr>tx_buffer := buf\<rparr>\<rparr>;
               (ri, s2) = lib_call E (tx_interleave_call h nsamples buf) s1;
               s3 = s2\<lparr>handler := (handler s2)\<lparr>tx_buffer := r_buffer ri\<rparr>\<rparr>
           in if r_status ri \<noteq> 0 then Some (- 1, s3)
              else
                let meta = tx_metadata E h secs frac_secs has_time_spec is_start_of_burst is_end_of_burst;
                    error = \<lparr>err_type = SRSRAN_RF_ERROR_LATE, err_opt = 0\<rparr>;
                    (rt, s4) = lib_call E (tx_transfer_call h nsamples (tx_buffer (handler s3)) meta) s3;
                    meta = r_meta rt
                in if r_status rt = BLADERF_ERR_TIME_PAST E
                   then Some (sint nsamples, report_fault s4 (error\<lparr>err_type := SRSRAN_RF_ERROR_LATE\<rparr>))
                   else if r_status rt \<noteq> 0 then Some (r_status rt, s4)
                   else if m_status meta = BLADERF_META_STATUS_UNDERRUN E
                   then Some (sint nsamples, report_fault s4 (error\<lparr>err_type := SRSRAN_RF_ERROR_UNDERFLOW\<rparr>))
                   else Some (sint nsamples, s4))"

subsection \<open>Open\<close>

text \<open>
  Modelled from the spec: \<^verbatim>\<open>parse_string\<close> and \<^verbatim>\<open>parse_uint32\<close> (rf\_helper.h is not part
  of the sources). The configuration string holds \<^verbatim>\<open>key=value\<close> pairs; it is given here
  by what the two parsers find in it. A key that is absent leaves the destination as it
  was.
\<close>

record rf_args =
  arg_string :: "string \<Rightarrow> string option"
  arg_uint32 :: "string \<Rightarrow> 32 word option"

definition parse_string :: "rf_args \<Rightarrow> string \<Rightarrow> string \<Rightarrow> string" where
  "parse_string args key dst = (case arg_string args key of None \<Rightarrow> dst | Some v \<Rightarrow> v)"

definition parse_uint32 :: "rf_args \<Rightarrow> string \<Rightarrow> 32 word \<Rightarrow> 32 word" where
  "parse_uint32 args key dst = (case arg_uint32 args key of None \<Rightarrow> dst | Some v \<Rightarrow> v)"

text \<open>The \<^verbatim>\<open>strcmp\<close> chains of lines 267 to 284 and 301 to 309.\<close>

definition log_level_of :: "string \<Rightarrow> bladerf_log_level option" where
  "log_level_of l =
     (if l = ''verbose'' then Some BLADERF_LOG_LEVEL_VERBOSE
      else if l = ''debug'' then Some BLADERF_LOG_LEVEL_DEBUG
      else if l = ''info'' then Some BLADERF_LOG_LEVEL_INFO
      else if l = ''warn'' then Some BLADERF_LOG_LEVEL_WARNING
      else if l = ''error'' then Some BLADERF_LOG_LEVEL_ERROR
      else if l = ''critical'' then Some BLADERF_LOG_LEVEL_CRITICAL
      else if l = ''silent'' then Some BLADERF_LOG_LEVEL_SILENT
      else None)"

definition tuning_mode_of :: "string \<Rightarrow> bladerf_tuning_mode option" where
  "tuning_mode_of t =
     (if t = ''fpga'' then Some BLADERF_TUNING_MODE_FPGA
      else if t = ''host'' then Some BLADERF_TUNING_MODE_HOST
      else None)"

text \<open>
  What \<^verbatim>\<open>*h\<close> holds when \<^verbatim>\<open>rf_blade_open_multi\<close> returns: \<^verbatim>\<open>NULL\<close>, the address of the
  allocated handler, or the address of a handler that has been freed.
\<close>

datatype handle_ptr = H_NULL | H_allocated | H_freed

text \<open>
  The second half of \<^verbatim>\<open>rf_blade_open_multi\<close> (lines 292 to 339): the device is opened, the
  tuning mode and the manual gain mode are set, and the stream flags are cleared. Every
  failure leaves through \<^verbatim>\<open>clean_exit\<close>, which frees the handler and leaves \<^verbatim>\<open>*h\<close> as it
  is.
\<close>

definition open_device ::
  "('f, 'd) env \<Rightarrow> rf_state \<Rightarrow> string \<Rightarrow> string \<Rightarrow> int \<times> handle_ptr \<times> rf_state" where
  "open_device E s device_id tuning_mode =
     (let (ro, s2) = lib_call E (Open_dev device_id) s
      in if r_status ro \<noteq> 0 then (r_status ro, H_freed, s2)
         else
           (case tuning_mode_of tuning_mode of
              None \<Rightarrow> (SRSRAN_ERROR E, H_freed, s2)
            | Some tm \<Rightarrow>
                let (rt, s3) = lib_call E (Set_tuning_mode tm) s2
                in if r_status rt \<noteq> 0 then (r_status rt, H_freed, s3)
                   else
                     let (rg, s4) = lib_call E (Set_gain_mode BLADERF_RX_X1 BLADERF_GAIN_MGC) s3
                     in if r_status rg \<noteq> 0 then (r_status rg, H_freed, s4)
                        else
                          let (st5, s5) =
                                (if nof_rx_channels (handler s4) > 1
                                 then (let (rg2, s') = lib_call E (Set_gain_mode BLADERF_RX_X2
                                                                    BLADERF_GAIN_MGC) s4
                                       in (r_status rg2, s'))
                                 else (0, s4))
                          in if st5 \<noteq> 0 then (st5, H_freed, s5)
                             else (SRSRAN_SUCCESS E, H_allocated,
                                   s5\<lparr>handler := (handler s5)\<lparr>rx_stream_enabled := False,
                                                               tx_stream_enabled := False\<rparr>\<rparr>)))"

text \<open>
  \<^verbatim>\<open>rf_blade_open_multi\<close>. \<open>malloc_ok\<close> tells whether \<^verbatim>\<open>malloc\<close> succeeds; \<open>handler s\<close> on
  entry is the indeterminate content of the new block, and the handler of the returned
  state is the content of the block when the function returns. The returns before the
  device is opened leave the block allocated and \<^verbatim>\<open>*h\<close> pointing to it.
\<close>

definition rf_blade_open_multi ::
  "('f, 'd) env \<Rightarrow> rf_state \<Rightarrow> bool \<Rightarrow> rf_args \<Rightarrow> 32 word \<Rightarrow> int \<times> handle_ptr \<times> rf_state" where
  "rf_blade_open_multi E s malloc_ok args nof_channels =
     (if \<not> malloc_ok then (SRSRAN_ERROR E, H_NULL, s)
      else if nof_channels > 2 then (SRSRAN_ERROR E, H_allocated, s)
      else
        let ntx = parse_uint32 args ''nof_tx_channels'' 0;
            nrx = parse_uint32 args ''nof_rx_channels'' 0;
            ntx = (if ntx = 0 \<or> ntx > nof_channels then nof_channels else ntx);
            nrx = (if nrx = 0 \<or> nrx > nof_channels then nof_channels else nrx);
            h1 = (handler s)\<lparr>nof_tx_channels := ntx, nof_rx_channels := nrx\<rparr>;
            fmt = parse_string args ''format'' ''sc16''
        in if fmt \<noteq> ''sc16'' \<and> fmt \<noteq> ''sc8'' then (SRSRAN_ERROR E, H_allocated, s\<lparr>handler := h1\<rparr>)
           else
             let h2 = (if fmt = ''sc16''
                       then h1\<lparr>iq_scale := 2048, sample_size := 2, format := BLADERF_FORMAT_SC16_Q11_META,
                               buffer_format := BLADERF_FORMAT_SC16_Q11\<rparr>
                       else h1\<lparr>iq_scale := 128, sample_size := 1, format := BLADERF_FORMAT_SC8_Q7_META,
                               buffer_format := BLADERF_FORMAT_SC8_Q7\<rparr>);
                 log_level = parse_string args ''log_level'' ''silent''
             in (case log_level_of log_level of
                   None \<Rightarrow> (SRSRAN_ERROR E, H_allocated, s\<lparr>handler := h2\<rparr>)
                 | Some lv \<Rightarrow>
                     let (rl, s1) = lib_call E (Log_set_verbosity lv) (s\<lparr>handler := h2\<rparr>);
                         device_id = parse_string args ''device_id'' [];
                         tuning_mode = parse_string args ''tuning_mode'' ''host''
                     in open_device E s1 device_id tuning_mode))"

text \<open>\<^verbatim>\<open>rf_blade_close\<close>: the device is closed (the call returns nothing) and 0 is returned.\<close>

definition rf_blade_close :: "('f, 'd) env \<Rightarrow> rf_state \<Rightarrow> int \<times> rf_state" where
  "rf_blade_close E s = (let (r, s') = lib_call E Close_dev s in (0, s'))"

subsection \<open>What open establishes, and reading the record of calls\<close>

text \<open>
  The handler as a successful \<^verbatim>\<open>rf_blade_open_multi\<close> leaves it: at most two channels
  per direction, and a sample width, a scale and a wire format that belong together.
\<close>

definition handler_inv :: "rf_blade_handler \<Rightarrow> bool" where
  "handler_inv h \<longleftrightarrow>
     nof_tx_channels h \<le> 2 \<and> nof_rx_channels h \<le> 2 \<and>
     (sample_size h = 2 \<and> buffer_format h = BLADERF_FORMAT_SC16_Q11 \<and>
        format h = BLADERF_FORMAT_SC16_Q11_META \<and> iq_scale h = 2048
      \<or> sample_size h = 1 \<and> buffer_format h = BLADERF_FORMAT_SC8_Q7 \<and>
        format h = BLADERF_FORMAT_SC8_Q7_META \<and> iq_scale h = 128)"

fun is_sync_config :: "call \<Rightarrow> bool" where
  "is_sync_config (Sync_config l f nb bs nt t) = True"
| "is_sync_config _ = False"

fun is_stream_start_call :: "call \<Rightarrow> bool" where
  "is_stream_start_call (Sync_config l f nb bs nt t) = True"
| "is_stream_start_call (Enable_module ch on) = on"
| "is_stream_start_call _ = False"

subsection \<open>A stub library and a test session\<close>

text \<open>
  Concrete environments for evaluating the model: a library whose reply depends on the
  latest call only, with integers standing for the floating-point values.
\<close>

definition ok_reply :: reply where
  "ok_reply = \<lparr>r_status = 0, r_buffer = (\<lambda>_. 0), r_meta = zero_meta, r_timestamp = 0\<rparr>"

definition stub_env :: "(call \<Rightarrow> reply) \<Rightarrow> (int, int) env" where
  "stub_env f =
     \<lparr>bladerf = (\<lambda>cs. case cs of [] \<Rightarrow> ok_reply | c # _ \<Rightarrow> f c),
      BLADERF_ERR_TIME_PAST = - 14,
      BLADERF_META_STATUS_OVERRUN = 1, BLADERF_META_STATUS_UNDERRUN = 2,
      BLADERF_META_FLAG_RX_NOW = 2147483648, BLADERF_META_FLAG_TX_NOW = 4,
      BLADERF_META_FLAG_TX_BURST_START = 1, BLADERF_META_FLAG_TX_BURST_END = 2,
      SRSRAN_SUCCESS = 0, SRSRAN_ERROR = - 1,
      convert_fb = (\<lambda>x sc. word_of_int x), convert_fi = (\<lambda>x sc. word_of_int x),
      convert_bf = (\<lambda>w sc. sint w), convert_if = (\<lambda>w sc. sint w),
      srsran_timestamp_uint64 = (\<lambda>secs fs rate. word_of_int (secs * uint rate + fs)),
      double_of_u64 = uint, double_of_u32 = uint, double_of_time = (\<lambda>t. t), time_of_double = (\<lambda>d. d),
      double_div = (\<lambda>a b. a div b), double_sub = (\<lambda>a b. a - b)\<rparr>"

definition stub_handler :: rf_blade_handler where
  "stub_handler =
     \<lparr>nof_tx_channels = 1, nof_rx_channels = 1, tx_rate = 1920000, rx_rate = 1920000,
      iq_scale = 2048, sample_size = 2, format = BLADERF_FORMAT_SC16_Q11_META,
      buffer_format = BLADERF_FORMAT_SC16_Q11, rx_buffer = (\<lambda>_. 0), tx_buffer = (\<lambda>_. 1),
      rx_stream_enabled = False, tx_stream_enabled = False\<rparr>"

definition stub_state :: rf_state where
  "stub_state =
     \<lparr>handler = stub_handler, blade_error_handler = Some 7, blade_error_handler_arg = 9,
      calls = [], faults = []\<rparr>"

definition no_args :: rf_args where
  "no_args = \<lparr>arg_string = (\<lambda>_. None), arg_uint32 = (\<lambda>_. None)\<rparr>"

definition ok_env :: "(int, int) env" where
  "ok_env = stub_env (\<lambda>c. ok_reply)"

text \<open>A library that reports one status for the transfers and accepts every other call.\<close>

definition transfer_status_env :: "int \<Rightarrow> (int, int) env" where
  "transfer_status_env st =
     stub_env (\<lambda>c. case c of Sync_tx b n m t \<Rightarrow> ok_reply\<lparr>r_status := st\<rparr>
                    | Sync_rx b n m t \<Rightarrow> ok_reply\<lparr>r_status := st\<rparr>
                    | _ \<Rightarrow> ok_reply)"

text \<open>A library that refuses to configure the sync interface and accepts every other call.\<close>

definition config_fails_env :: "(int, int) env" where
  "config_fails_env =
     stub_env (\<lambda>c. case c of Sync_config l f nb bs nt t \<Rightarrow> ok_reply\<lparr>r_status := - 5\<rparr> | _ \<Rightarrow> ok_reply)"

text \<open>
  A library whose receive transfer delivers \<open>count\<close> samples with the status word
  \<open>status\<close>, at time stamp 3840000, into a buffer that holds the byte \<open>a mod 256\<close> at
  offset \<open>a\<close>; deinterleaving leaves the buffer as it is.
\<close>

definition rx_env :: "32 word \<Rightarrow> 32 word \<Rightarrow> (int, int) env" where
  "rx_env count status =
     stub_env (\<lambda>c. case c of
         Sync_rx b n m t \<Rightarrow>
           ok_reply\<lparr>r_buffer := (\<lambda>a. of_nat a),
                     r_meta := m\<lparr>m_timestamp := 3840000, m_status := status, m_actual_count := count\<rparr>\<rparr>
       | Deinterleave_stream_buffer l f n b \<Rightarrow> ok_reply\<lparr>r_buffer := b\<rparr>
       | _ \<Rightarrow> ok_reply)"

text \<open>
  A library that fails to read the time stamp and leaves 4800000 in the cell. Here a
  double-precision value is a number of thousandths of a second, so that the fraction of
  a second is visible.
\<close>

definition timestamp_fails_env :: "(int, int) env" where
  "timestamp_fails_env =
     (stub_env (\<lambda>c. case c of Get_timestamp d t \<Rightarrow> ok_reply\<lparr>r_status := - 5, r_timestamp := 4800000\<rparr>
                     | _ \<Rightarrow> ok_reply))
       \<lparr>double_of_u64 := (\<lambda>w. 1000 * uint w), double_of_time := (\<lambda>t. 1000 * t),
        time_of_double := (\<lambda>d. d div 1000)\<rparr>"

text \<open>A session with two TX channels, and caller buffers where only channel 0 has data.\<close>

definition dual_tx_state :: rf_state where
  "dual_tx_state = stub_state\<lparr>handler := stub_handler\<lparr>nof_tx_channels := 2\<rparr>\<rparr>"

definition ch0_only :: "nat \<Rightarrow> (nat \<Rightarrow> int) option" where
  "ch0_only i = (if i = 0 then Some (\<lambda>k. 5) else None)"

text \<open>The test session with its TX stream already streaming.\<close>

definition streaming_state :: rf_state where
  "streaming_state = stub_state\<lparr>handler := stub_handler\<lparr>tx_stream_enabled := True\<rparr>\<rparr>"

section \<open>Properties\<close>

subsection \<open>Stopping the streams\<close>

lemma stop_rx_stream_idle:
  assumes "\<not> rx_stream_enabled (handler s)" and "\<not> tx_stream_enabled (handler s)"
  shows "handler (snd (rf_blade_stop_rx_stream E s)) = handler s"
    and "fst (rf_blade_stop_rx_stream E s) = r_status (bladerf E (calls (snd (rf_blade_stop_rx_stream E s))))"
    and "\<exists>new. calls (snd (rf_blade_stop_rx_stream E s)) = new @ calls s \<and> new \<noteq> [] \<and>
           last new = Enable_module BLADERF_RX_X1 False \<and> set new \<subseteq> range (\<lambda>ch. Enable_module ch False)"
  using assms
  by (auto simp: rf_blade_stop_rx_stream_def disable_module_def lib_call_def Let_def
           split: if_splits prod.splits)

text \<open>
  C8, as stated, fails: on a session whose two streams are idle, with a library that
  accepts every call, \<^verbatim>\<open>rf_blade_stop_rx_stream\<close> issues the module-disable calls for RX1 and
  TX1.
\<close>

theorem stop_when_idle_not_noop:
  "\<not> rx_stream_enabled (handler stub_state) \<and> \<not> tx_stream_enabled (handler stub_state) \<and>
   calls stub_state = [] \<and>
   calls (snd (rf_blade_stop_rx_stream ok_env stub_state)) =
     [Enable_module BLADERF_TX_X1 False, Enable_module BLADERF_RX_X1 False]"
  by (simp add: rf_blade_stop_rx_stream_def disable_module_def lib_call_def stub_state_def
        stub_handler_def stub_env_def ok_env_def ok_reply_def)

text \<open>
  C8, amended: when both streams are idle, \<^verbatim>\<open>rf_blade_stop_rx_stream\<close> leaves the handler,
  and with it both stream-enabled flags, unchanged; it is not a no-op: it issues
  module-disable calls (at least one, RX1 first, and no other kind of call), and it
  returns the status of the last call it issued, so it returns success when the library
  accepts the calls.
\<close>

theorem stop_when_idle:
  assumes "\<not> rx_stream_enabled (handler s)" and "\<not> tx_stream_enabled (handler s)"
  shows "handler (snd (rf_blade_stop_rx_stream E s)) = handler s \<and>
         fst (rf_blade_stop_rx_stream E s) = r_status (bladerf E (calls (snd (rf_blade_stop_rx_stream E s)))) \<and>
         (\<exists>new. calls (snd (rf_blade_stop_rx_stream E s)) = new @ calls s \<and> new \<noteq> [] \<and>
            last new = Enable_module BLADERF_RX_X1 False \<and> set new \<subseteq> range (\<lambda>ch. Enable_module ch False))"
  using stop_rx_stream_idle [OF assms] by blast

theorem stop_when_idle_witness:
  "\<not> rx_stream_enabled (handler stub_state) \<and> \<not> tx_stream_enabled (handler stub_state) \<and>
   handler (snd (rf_blade_stop_rx_stream ok_env stub_state)) = handler stub_state \<and>
   fst (rf_blade_stop_rx_stream ok_env stub_state) = 0"
proof -
  have idle: "\<not> rx_stream_enabled (handler stub_state)" "\<not> tx_stream_enabled (handler stub_state)"
    by (simp_all add: stub_state_def stub_handler_def)
  have "bladerf ok_env cs = ok_reply" for cs
    by (cases cs) (simp_all add: ok_env_def stub_env_def)
  then show ?thesis
    using idle stop_when_idle [OF idle, of ok_env] by (simp add: ok_reply_def)
qed

subsection \<open>The stub library\<close>

lemma stub_env_reply: "bladerf (stub_env f) (c # cs) = f c"
  by (simp add: stub_env_def)

lemma ok_env_reply: "bladerf ok_env (c # cs) = ok_reply"
  by (simp add: ok_env_def stub_env_reply)

subsection \<open>Reading the time\<close>

text \<open>
  C10: \<^verbatim>\<open>rf_blade_get_time\<close> has no way to signal a failure: it returns nothing but the two
  output cells. Whatever status the library reports for reading the time stamp, the
  seconds cell receives the truncation of \<open>timestamp / rx_rate\<close> and the fraction cell
  receives \<open>timestamp / rx_rate\<close> minus that truncation, where \<open>timestamp\<close> is what the
  metadata holds after the call; a cell is left out only when its pointer is null. With
  both pointers given both cells are overwritten, whatever they held. The only other
  effect is the recorded library call, and replacing the reported status by any other
  changes nothing.
\<close>

theorem get_time_never_fails:
  fixes E :: "('f, 'd) env" and s :: rf_state and meta :: bladerf_metadata
    and secs :: "int option" and frac_secs :: "'d option" and a :: int and b :: 'd
    and st :: "call list \<Rightarrow> int"
  defines "timestamp \<equiv> r_timestamp (bladerf E (Get_timestamp BLADERF_RX (m_timestamp meta) # calls s))"
  defines "totalsecs \<equiv> double_div E (double_of_u64 E timestamp) (double_of_u32 E (rx_rate (handler s)))"
  defines "secs_i \<equiv> time_of_double E totalsecs"
  defines "fraction \<equiv> double_sub E totalsecs (double_of_time E secs_i)"
  shows "rf_blade_get_time E s meta (Some a) (Some b) =
           ((Some secs_i, Some fraction), s\<lparr>calls := Get_timestamp BLADERF_RX (m_timestamp meta) # calls s\<rparr>)
       \<and> rf_blade_get_time E s meta secs frac_secs =
           ((case secs of None \<Rightarrow> None | Some x \<Rightarrow> Some secs_i,
             case frac_secs of None \<Rightarrow> None | Some y \<Rightarrow> Some fraction),
            s\<lparr>calls := Get_timestamp BLADERF_RX (m_timestamp meta) # calls s\<rparr>)
       \<and> rf_blade_get_time (E\<lparr>bladerf := \<lambda>cs. (bladerf E cs)\<lparr>r_status := st cs\<rparr>\<rparr>) s meta secs frac_secs =
           rf_blade_get_time E s meta secs frac_secs"
  unfolding timestamp_def totalsecs_def secs_i_def fraction_def
  by (simp add: rf_blade_get_time_def lib_call_def timestamp_to_secs_def Let_def split: option.split)

theorem get_time_never_fails_witness:
  "r_status (bladerf timestamp_fails_env (Get_timestamp BLADERF_RX 0 # calls stub_state)) = - 5 \<and>
   rf_blade_get_time timestamp_fails_env stub_state zero_meta (Some 7) (Some 9) =
     ((Some 2, Some 500), stub_state\<lparr>calls := [Get_timestamp BLADERF_RX 0]\<rparr>) \<and>
   fst (rf_blade_get_time timestamp_fails_env stub_state zero_meta None (Some 9)) = (None, Some 500)"
proof -
  have r: "bladerf timestamp_fails_env (Get_timestamp BLADERF_RX 0 # calls stub_state) =
             ok_reply\<lparr>r_status := - 5, r_timestamp := 4800000\<rparr>"
    by (simp add: timestamp_fails_env_def stub_env_def)
  have ops: "double_div timestamp_fails_env = (\<lambda>a b. a div b)" "double_sub timestamp_fails_env = (\<lambda>a b. a - b)"
    "double_of_u64 timestamp_fails_env = (\<lambda>w. 1000 * uint w)" "double_of_u32 timestamp_fails_env = uint"
    "double_of_time timestamp_fails_env = (\<lambda>t. 1000 * t)"
    "time_of_double timestamp_fails_env = (\<lambda>d. d div 1000)"
    by (simp_all add: timestamp_fails_env_def stub_env_def)
  have st: "rx_rate (handler stub_state) = 1920000" "calls stub_state = []" "m_timestamp zero_meta = 0"
    by (simp_all add: stub_state_def stub_handler_def zero_meta_def)
  show ?thesis
    using get_time_never_fails [where E = timestamp_fails_env and s = stub_state and meta = zero_meta
        and a = 7 and b = 9 and secs = None and frac_secs = "Some 9"] r
    by (simp add: ops st)
qed

subsection \<open>The capacity test of the receive path\<close>

lemma recv_capacity_error:
  "rx_capacity_exceeded (handler s) nsamples \<Longrightarrow>
   rf_blade_recv_with_time_multi E s error data nsamples secs frac_secs =
     Some \<lparr>rv_ret = - 1, rv_data = data, rv_secs = secs, rv_frac_secs = frac_secs, rv_state = s\<rparr>"
  by (simp add: rf_blade_recv_with_time_multi_def)

text \<open>
  C1 at \<^verbatim>\<open>nsamples\<close> = \<open>2\<^sup>3\<^sup>1\<close>, 16-bit samples, one channel: the request needs \<open>2\<^sup>3\<^sup>3\<close> bytes,
  far more than the scratch buffer holds, but \<^verbatim>\<open>2 * nsamples\<close> wraps to 0 in 32 bits, the
  test passes, the transfer is issued and the call returns a count.
\<close>

theorem recv_capacity_test_wraps:
  "2 * unat (2147483648 :: 32 word) * unat (sample_size (handler stub_state))
      * unat (nof_rx_channels (handler stub_state)) > unat CONVERT_BUFFER_SIZE \<and>
   (\<exists>res. rf_blade_recv_with_time_multi ok_env stub_state \<lparr>err_type = SRSRAN_RF_ERROR_OTHER, err_opt = 0\<rparr>
            (\<lambda>i. None) 2147483648 None None = Some res \<and>
          rv_ret res = 0 \<and>
          calls (rv_state res) =
            [rx_deinterleave_call stub_handler zero_meta (r_buffer ok_reply),
             rx_transfer_call ok_env stub_handler 2147483648])"
proof -
  have "\<not> rx_capacity_exceeded stub_handler 2147483648"
    by (simp add: rx_capacity_exceeded_def stub_handler_def CONVERT_BUFFER_SIZE_def)
  then show ?thesis
    by (simp add: rf_blade_recv_with_time_multi_def lib_call_def ok_env_reply Let_def rx_overrun_def
          timestamp_to_secs_def)
       (simp add: stub_state_def stub_handler_def ok_reply_def zero_meta_def CONVERT_BUFFER_SIZE_def)
qed

subsection \<open>Open\<close>

text \<open>
  C7 at a channel count of 0, with an empty configuration string and a library that
  accepts every call: \<^verbatim>\<open>rf_blade_open_multi\<close> returns \<^verbatim>\<open>SRSRAN_SUCCESS\<close> and hands out a
  handler with no channel in either direction.
\<close>

theorem open_accepts_zero_channels:
  "rf_blade_open_multi ok_env stub_state True no_args 0 =
     (SRSRAN_SUCCESS ok_env, H_allocated,
      stub_state\<lparr>handler := stub_handler\<lparr>nof_tx_channels := 0, nof_rx_channels := 0\<rparr>,
        calls := [Set_gain_mode BLADERF_RX_X1 BLADERF_GAIN_MGC, Set_tuning_mode BLADERF_TUNING_MODE_HOST,
                  Open_dev [], Log_set_verbosity BLADERF_LOG_LEVEL_SILENT]\<rparr>)"
  by (simp add: rf_blade_open_multi_def open_device_def parse_uint32_def parse_string_def no_args_def
        log_level_of_def tuning_mode_of_def lib_call_def ok_env_reply Let_def)
     (simp add: ok_reply_def stub_state_def stub_handler_def)

subsection \<open>The capacity test of the transmit path\<close>

lemma word32_le_2_cases: "(w :: 32 word) \<le> 2 \<Longrightarrow> w = 0 \<or> w = 1 \<or> w = 2"
  by unat_arith

lemma sint_twice:
  "\<not> mul2_overflows n \<Longrightarrow> sint (2 * n) = 2 * sint n"
  by (simp add: mul2_overflows_def sint_word_ariths signed_take_bit_int_eq_self)

lemma scast_twice:
  assumes "\<not> mul2_overflows n"
  shows "(scast (2 * n) :: 64 word) = word_of_int (2 * sint n)"
proof -
  have "(scast (2 * n) :: 64 word) = word_of_int (sint (2 * n))"
    by (rule scast_eq)
  then show ?thesis
    unfolding sint_twice [OF assms] .
qed

lemma int_mod_small:
  fixes X :: int
  assumes "X mod 2 ^ 64 \<le> 262144" and "- (2 ^ 33) \<le> X" and "X < 2 ^ 33"
  shows "0 \<le> X \<and> X \<le> 262144"
proof (cases "X < 0")
  case True
  then have "(X + 2 ^ 64) mod 2 ^ 64 = X + 2 ^ 64"
    using assms(2) by (intro mod_pos_pos_trivial) simp_all
  then have "X mod 2 ^ 64 = X + 2 ^ 64"
    by simp
  then show ?thesis using assms(1,2) by simp
next
  case False
  then have "X mod 2 ^ 64 = X"
    using assms(3) by (intro mod_pos_pos_trivial) simp_all
  then show ?thesis using assms(1) False by simp
qed

lemma word64_capacity:
  fixes X :: int
  assumes "\<not> (CONVERT_BUFFER_SIZE < (word_of_int X :: 64 word))" and "- (2 ^ 33) \<le> X" and "X < 2 ^ 33"
  shows "0 \<le> X \<and> X \<le> 262144"
proof -
  have "uint (word_of_int X :: 64 word) = X mod 2 ^ 64"
    using uint_word_of_int [where 'a = 64, of X] by simp
  moreover have "uint (word_of_int X :: 64 word) \<le> 262144"
    using assms(1) by (simp add: word_less_def CONVERT_BUFFER_SIZE_def)
  ultimately show ?thesis
    using int_mod_small [of X] assms(2,3) by simp
qed


lemma tx_capacity_bounds:
  assumes inv: "handler_inv h" and nz: "nof_tx_channels h \<noteq> 0"
    and no: "\<not> mul2_overflows n" and cap: "\<not> tx_capacity_exceeded h n"
  shows "0 \<le> sint n \<and> sint n \<le> 131072 \<and>
         2 * sint n * uint (sample_size h) * uint (nof_tx_channels h) \<le> 262144"
proof -
  define m where "m = sint n"
  have m: "- (2 ^ 30) \<le> m" "m < 2 ^ 30"
    using no by (simp_all add: mul2_overflows_def m_def)
  have nof: "nof_tx_channels h = 1 \<or> nof_tx_channels h = 2"
    using inv nz word32_le_2_cases [of "nof_tx_channels h"] by (auto simp: handler_inv_def)
  have ss: "sample_size h = 1 \<or> sample_size h = 2"
    using inv by (auto simp: handler_inv_def)
  define k where "k = uint (sample_size h) * uint (nof_tx_channels h)"
  have k: "k = 1 \<or> k = 2 \<or> k = 4"
    using nof ss by (auto simp: k_def)
  have "sample_size h * ucast (nof_tx_channels h) = (word_of_int k :: 64 word)"
    using nof ss by (auto simp: k_def)
  then have "scast (2 * n) * sample_size h * ucast (nof_tx_channels h) = (word_of_int (2 * m * k) :: 64 word)"
    unfolding scast_twice [OF no] m_def [symmetric] by (simp add: mult.assoc)
  then have "\<not> (CONVERT_BUFFER_SIZE < (word_of_int (2 * m * k) :: 64 word))"
    using cap by (simp add: tx_capacity_exceeded_def)
  moreover have "- (2 ^ 33) \<le> 2 * m * k" "2 * m * k < 2 ^ 33"
    using m k by auto
  ultimately have "0 \<le> 2 * m * k \<and> 2 * m * k \<le> 262144"
    by (rule word64_capacity)
  then show ?thesis
    using k unfolding m_def [symmetric] k_def by (auto simp: mult.assoc)
qed





subsection \<open>Starting the TX stream\<close>

lemma start_tx_handler:
  "handler (snd (rf_blade_start_tx_stream E s)) =
     (handler s)\<lparr>tx_stream_enabled := (fst (rf_blade_start_tx_stream E s) = 0 \<or> tx_stream_enabled (handler s))\<rparr>"
  by (simp add: rf_blade_start_tx_stream_def lib_call_def Let_def split_def)

lemma start_tx_frame:
  "faults (snd (rf_blade_start_tx_stream E s)) = faults s"
  "blade_error_handler (snd (rf_blade_start_tx_stream E s)) = blade_error_handler s"
  "blade_error_handler_arg (snd (rf_blade_start_tx_stream E s)) = blade_error_handler_arg s"
  by (simp_all add: rf_blade_start_tx_stream_def lib_call_def Let_def split_def)

lemma start_tx_calls_cases:
  "calls (snd (rf_blade_start_tx_stream E s)) = [tx_sync_config_call (handler s)] @ calls s \<or>
   calls (snd (rf_blade_start_tx_stream E s)) =
     [Enable_module BLADERF_TX_X1 True, tx_sync_config_call (handler s)] @ calls s \<or>
   calls (snd (rf_blade_start_tx_stream E s)) =
     [Enable_module BLADERF_TX_X2 True, Enable_module BLADERF_TX_X1 True, tx_sync_config_call (handler s)]
       @ calls s"
  by (simp add: rf_blade_start_tx_stream_def lib_call_def Let_def split_def)

lemma start_tx_calls:
  "\<exists>pre. calls (snd (rf_blade_start_tx_stream E s)) = pre @ calls s \<and> pre \<noteq> [] \<and>
     last pre = tx_sync_config_call (handler s) \<and>
     (\<forall>c\<in>set pre. is_stream_start_call c) \<and> length (filter is_sync_config pre) = 1"
proof -
  let ?c = "tx_sync_config_call (handler s)"
  have c: "is_stream_start_call ?c" "is_sync_config ?c"
    by (simp_all add: tx_sync_config_call_def)
  consider "calls (snd (rf_blade_start_tx_stream E s)) = [?c] @ calls s"
    | "calls (snd (rf_blade_start_tx_stream E s)) = [Enable_module BLADERF_TX_X1 True, ?c] @ calls s"
    | "calls (snd (rf_blade_start_tx_stream E s)) =
         [Enable_module BLADERF_TX_X2 True, Enable_module BLADERF_TX_X1 True, ?c] @ calls s"
    using start_tx_calls_cases [of E s] by blast
  then show ?thesis
  proof cases
    case 1
    show ?thesis by (rule exI [of _ "[?c]"]) (use 1 c in simp)
  next
    case 2
    show ?thesis by (rule exI [of _ "[Enable_module BLADERF_TX_X1 True, ?c]"]) (use 2 c in simp)
  next
    case 3
    show ?thesis
      by (rule exI [of _ "[Enable_module BLADERF_TX_X2 True, Enable_module BLADERF_TX_X1 True, ?c]"])
         (use 3 c in simp)
  qed
qed

lemma lazy_start_frame:
  "faults (tx_lazy_start E s) = faults s"
  "blade_error_handler (tx_lazy_start E s) = blade_error_handler s"
  "blade_error_handler_arg (tx_lazy_start E s) = blade_error_handler_arg s"
  by (simp_all add: tx_lazy_start_def start_tx_frame)

lemma lazy_start_handler:
  "handler (tx_lazy_start E s) =
     (handler s)\<lparr>tx_stream_enabled := (tx_stream_enabled (handler s) \<or> fst (rf_blade_start_tx_stream E s) = 0)\<rparr>"
  by (auto simp add: tx_lazy_start_def start_tx_handler)

text \<open>Nothing on the transmit path reads the stream-enabled flag after the lazy start.\<close>

lemma tx_flag_irrelevant:
  "tx_capacity_exceeded (h\<lparr>tx_stream_enabled := b\<rparr>) n = tx_capacity_exceeded h n"
  "tx_convert_loop E (h\<lparr>tx_stream_enabled := b\<rparr>) data n = tx_convert_loop E h data n"
  "tx_interleave_call (h\<lparr>tx_stream_enabled := b\<rparr>) n buf = tx_interleave_call h n buf"
  "tx_transfer_call (h\<lparr>tx_stream_enabled := b\<rparr>) n buf m = tx_transfer_call h n buf m"
  "tx_metadata E (h\<lparr>tx_stream_enabled := b\<rparr>) secs frac_secs hts sob eob =
     tx_metadata E h secs frac_secs hts sob eob"
  "handler_inv (h\<lparr>tx_stream_enabled := b\<rparr>) = handler_inv h"
proof -
  have "tx_convert_channel E (h\<lparr>tx_stream_enabled := b\<rparr>) data n = tx_convert_channel E h data n"
    by (intro ext) (simp add: tx_convert_channel_def split: option.split)
  then show "tx_convert_loop E (h\<lparr>tx_stream_enabled := b\<rparr>) data n = tx_convert_loop E h data n"
    by (simp add: tx_convert_loop_def)
qed (simp_all add: tx_capacity_exceeded_def tx_interleave_call_def tx_transfer_call_def tx_metadata_def
       handler_inv_def)

subsection \<open>The transmit path, branch by branch\<close>

lemma send_capacity_error:
  assumes "\<not> mul2_overflows nsamples" and "tx_capacity_exceeded (handler s) nsamples"
  shows "rf_blade_send_timed_multi E s data nsamples secs frac_secs hts sob eob = Some (- 1, tx_lazy_start E s)"
  using assms by (simp add: rf_blade_send_timed_multi_def Let_def lazy_start_handler tx_flag_irrelevant)

lemma send_interleave_error:
  fixes E :: "('f, 'd) env" and s :: rf_state and data :: "nat \<Rightarrow> (nat \<Rightarrow> 'f) option"
    and nsamples :: "32 word"
  defines "h \<equiv> handler s"
  defines "ic \<equiv> tx_interleave_call h nsamples (tx_convert_loop E h data nsamples)"
  assumes "\<not> mul2_overflows nsamples" and "\<not> tx_capacity_exceeded h nsamples"
    and "r_status (bladerf E (ic # calls (tx_lazy_start E s))) \<noteq> 0"
  shows "\<exists>s'. rf_blade_send_timed_multi E s data nsamples secs frac_secs hts sob eob = Some (- 1, s') \<and>
           calls s' = ic # calls (tx_lazy_start E s) \<and> faults s' = faults s"
  using assms(3-5) lazy_start_frame [of E s]
  unfolding rf_blade_send_timed_multi_def h_def ic_def
  by (simp add: Let_def lib_call_def lazy_start_handler tx_flag_irrelevant)

lemma send_transfer:
  fixes E :: "('f, 'd) env" and s :: rf_state and data :: "nat \<Rightarrow> (nat \<Rightarrow> 'f) option"
    and nsamples :: "32 word" and secs :: int and frac_secs :: 'd and hts sob eob :: bool
  defines "s0 \<equiv> tx_lazy_start E s"
  defines "h \<equiv> handler s"
  defines "ic \<equiv> tx_interleave_call h nsamples (tx_convert_loop E h data nsamples)"
  defines "tc \<equiv> tx_transfer_call h nsamples (r_buffer (bladerf E (ic # calls s0)))
                  (tx_metadata E h secs frac_secs hts sob eob)"
  defines "rt \<equiv> bladerf E (tc # ic # calls s0)"
  assumes "\<not> mul2_overflows nsamples" and "\<not> tx_capacity_exceeded h nsamples"
    and "r_status (bladerf E (ic # calls s0)) = 0"
  shows "\<exists>s'. rf_blade_send_timed_multi E s data nsamples secs frac_secs hts sob eob =
           Some (if r_status rt = BLADERF_ERR_TIME_PAST E \<or> r_status rt = 0 then sint nsamples else r_status rt, s')
         \<and> calls s' = tc # ic # calls s0
         \<and> handler s' = (handler s0)\<lparr>tx_buffer := r_buffer (bladerf E (ic # calls s0))\<rparr>
         \<and> faults s' =
             (if r_status rt = BLADERF_ERR_TIME_PAST E
              then (case blade_error_handler s of None \<Rightarrow> faults s
                    | Some f \<Rightarrow> (f, blade_error_handler_arg s,
                         \<lparr>err_type = SRSRAN_RF_ERROR_LATE, err_opt = 0\<rparr>) # faults s)
              else if r_status rt = 0 \<and> m_status (r_meta rt) = BLADERF_META_STATUS_UNDERRUN E
              then (case blade_error_handler s of None \<Rightarrow> faults s
                    | Some f \<Rightarrow> (f, blade_error_handler_arg s,
                         \<lparr>err_type = SRSRAN_RF_ERROR_UNDERFLOW, err_opt = 0\<rparr>) # faults s)
              else faults s)"
  using assms(6-8) lazy_start_frame [of E s]
  unfolding rf_blade_send_timed_multi_def s0_def [symmetric] rt_def tc_def ic_def h_def
  by (simp add: Let_def lib_call_def report_fault_def lazy_start_handler tx_flag_irrelevant s0_def
       split: option.split)



subsection \<open>Faults and errors of the transfer\<close>

lemma transfer_status_env_simps:
  "bladerf (transfer_status_env st) (tx_transfer_call h n b m # cs) = ok_reply\<lparr>r_status := st\<rparr>"
  "bladerf (transfer_status_env st) (tx_interleave_call h n b # cs) = ok_reply"
  "bladerf (transfer_status_env st) (tx_sync_config_call h # cs) = ok_reply"
  "bladerf (transfer_status_env st) (Enable_module ch on # cs) = ok_reply"
  "BLADERF_ERR_TIME_PAST (transfer_status_env st) = - 14"
  by (simp_all add: transfer_status_env_def stub_env_def tx_transfer_call_def tx_interleave_call_def
        tx_sync_config_call_def)

lemma stub_tx_capacity: "\<not> mul2_overflows 4" "\<not> tx_capacity_exceeded (handler stub_state) 4"
  by (simp_all add: mul2_overflows_def tx_capacity_exceeded_def stub_state_def stub_handler_def
        CONVERT_BUFFER_SIZE_def)

text \<open>
  C2: when the transfer of a transmit call is reached (the capacity test passes and the
  buffer is interleaved) and the library reports \<^verbatim>\<open>BLADERF_ERR_TIME_PAST\<close> for it, the call
  returns \<^verbatim>\<open>nsamples\<close> and the registered handler, if any, receives one LATE event; when
  the library reports any other nonzero status, the call returns that status and no
  event is raised. On a handler as open leaves it, with at least one TX channel, the
  returned \<^verbatim>\<open>nsamples\<close> is not negative.
\<close>

theorem send_time_past_is_late:
  fixes E :: "('f, 'd) env" and s :: rf_state and data :: "nat \<Rightarrow> (nat \<Rightarrow> 'f) option"
    and nsamples :: "32 word" and secs :: int and frac_secs :: 'd and hts sob eob :: bool
  defines "s0 \<equiv> tx_lazy_start E s"
  defines "h \<equiv> handler s"
  defines "ic \<equiv> tx_interleave_call h nsamples (tx_convert_loop E h data nsamples)"
  defines "tc \<equiv> tx_transfer_call h nsamples (r_buffer (bladerf E (ic # calls s0)))
                  (tx_metadata E h secs frac_secs hts sob eob)"
  defines "status \<equiv> r_status (bladerf E (tc # ic # calls s0))"
  assumes "\<not> mul2_overflows nsamples" and "\<not> tx_capacity_exceeded h nsamples"
    and "r_status (bladerf E (ic # calls s0)) = 0"
  shows "(status = BLADERF_ERR_TIME_PAST E \<longrightarrow>
            (\<exists>s'. rf_blade_send_timed_multi E s data nsamples secs frac_secs hts sob eob =
                     Some (sint nsamples, s') \<and>
                   faults s' =
                     (case blade_error_handler s of None \<Rightarrow> faults s
                      | Some f \<Rightarrow> (f, blade_error_handler_arg s,
                           \<lparr>err_type = SRSRAN_RF_ERROR_LATE, err_opt = 0\<rparr>) # faults s)))
       \<and> (status \<noteq> BLADERF_ERR_TIME_PAST E \<and> status \<noteq> 0 \<longrightarrow>
            (\<exists>s'. rf_blade_send_timed_multi E s data nsamples secs frac_secs hts sob eob = Some (status, s') \<and>
                   faults s' = faults s))
       \<and> (handler_inv h \<and> nof_tx_channels h \<noteq> 0 \<longrightarrow> 0 \<le> sint nsamples)"
proof -
  have "\<exists>s'. rf_blade_send_timed_multi E s data nsamples secs frac_secs hts sob eob =
           Some (if status = BLADERF_ERR_TIME_PAST E \<or> status = 0 then sint nsamples else status, s')
         \<and> faults s' =
             (if status = BLADERF_ERR_TIME_PAST E
              then (case blade_error_handler s of None \<Rightarrow> faults s
                    | Some f \<Rightarrow> (f, blade_error_handler_arg s,
                         \<lparr>err_type = SRSRAN_RF_ERROR_LATE, err_opt = 0\<rparr>) # faults s)
              else if status = 0 \<and> m_status (r_meta (bladerf E (tc # ic # calls s0))) = BLADERF_META_STATUS_UNDERRUN E
              then (case blade_error_handler s of None \<Rightarrow> faults s
                    | Some f \<Rightarrow> (f, blade_error_handler_arg s,
                         \<lparr>err_type = SRSRAN_RF_ERROR_UNDERFLOW, err_opt = 0\<rparr>) # faults s)
              else faults s)"
    using send_transfer [where E = E and s = s and data = data and nsamples = nsamples and secs = secs
        and frac_secs = frac_secs and hts = hts and sob = sob and eob = eob] assms(6-8)
    unfolding s0_def h_def ic_def tc_def status_def by blast
  moreover have "handler_inv h \<and> nof_tx_channels h \<noteq> 0 \<longrightarrow> 0 \<le> sint nsamples"
    using tx_capacity_bounds [of h nsamples] assms(6,7) by blast
  ultimately show ?thesis
    by auto
qed

theorem send_time_past_is_late_witness:
  "\<not> mul2_overflows 4 \<and> \<not> tx_capacity_exceeded (handler stub_state) 4 \<and>
   (\<exists>s'. rf_blade_send_timed_multi (transfer_status_env (- 14)) stub_state (\<lambda>i. None) 4 0 0 False True True =
            Some (4, s') \<and>
          faults s' = [(7, 9, \<lparr>err_type = SRSRAN_RF_ERROR_LATE, err_opt = 0\<rparr>)]) \<and>
   (\<exists>s'. rf_blade_send_timed_multi (transfer_status_env (- 5)) stub_state (\<lambda>i. None) 4 0 0 False True True =
            Some (- 5, s') \<and>
          faults s' = [])"
proof -
  have inv: "handler_inv (handler stub_state)" "nof_tx_channels (handler stub_state) \<noteq> 0"
    by (simp_all add: handler_inv_def stub_state_def stub_handler_def)
  have st: "blade_error_handler stub_state = Some 7" "blade_error_handler_arg stub_state = 9"
    "faults stub_state = []"
    by (simp_all add: stub_state_def)
  have ok: "r_status ok_reply = 0"
    by (simp add: ok_reply_def)
  show ?thesis
    using send_time_past_is_late [where E = "transfer_status_env (- 14)" and s = stub_state
          and data = "\<lambda>i. None" and nsamples = 4 and secs = 0 and frac_secs = 0 and hts = False
          and sob = True and eob = True]
      send_time_past_is_late [where E = "transfer_status_env (- 5)" and s = stub_state
          and data = "\<lambda>i. None" and nsamples = 4 and secs = 0 and frac_secs = 0 and hts = False
          and sob = True and eob = True]
      stub_tx_capacity
    by (simp add: transfer_status_env_simps st ok)
qed

subsection \<open>The lazy start\<close>

lemma config_fails_env_simps:
  "bladerf config_fails_env (tx_transfer_call h n b m # cs) = ok_reply"
  "bladerf config_fails_env (tx_interleave_call h n b # cs) = ok_reply"
  "bladerf config_fails_env (tx_sync_config_call h # cs) = ok_reply\<lparr>r_status := - 5\<rparr>"
  "BLADERF_ERR_TIME_PAST config_fails_env = - 14"
  by (simp_all add: config_fails_env_def stub_env_def tx_transfer_call_def tx_interleave_call_def
        tx_sync_config_call_def)

lemma config_fails_start:
  "rf_blade_start_tx_stream config_fails_env stub_state =
     (- 5, stub_state\<lparr>calls := [tx_sync_config_call stub_handler]\<rparr>)"
  by (simp add: rf_blade_start_tx_stream_def lib_call_def config_fails_env_simps ok_reply_def)
     (simp add: stub_state_def)

text \<open>
  C9: on an idle TX stream whose start fails (nonzero status), the transmit call still
  runs the capacity test, converts, interleaves and, when the interleave succeeds, issues
  the transfer; what it returns is decided by the transfer alone, and the stream is
  still idle afterwards.
\<close>

theorem send_ignores_start_failure:
  fixes E :: "('f, 'd) env" and s :: rf_state and data :: "nat \<Rightarrow> (nat \<Rightarrow> 'f) option"
    and nsamples :: "32 word" and secs :: int and frac_secs :: 'd and hts sob eob :: bool
  defines "s0 \<equiv> snd (rf_blade_start_tx_stream E s)"
  defines "h \<equiv> handler s"
  defines "ic \<equiv> tx_interleave_call h nsamples (tx_convert_loop E h data nsamples)"
  defines "tc \<equiv> tx_transfer_call h nsamples (r_buffer (bladerf E (ic # calls s0)))
                  (tx_metadata E h secs frac_secs hts sob eob)"
  defines "status \<equiv> r_status (bladerf E (tc # ic # calls s0))"
  assumes "\<not> tx_stream_enabled h" and "fst (rf_blade_start_tx_stream E s) \<noteq> 0"
    and "\<not> mul2_overflows nsamples" and "\<not> tx_capacity_exceeded h nsamples"
    and "r_status (bladerf E (ic # calls s0)) = 0"
  shows "\<exists>s'. rf_blade_send_timed_multi E s data nsamples secs frac_secs hts sob eob =
           Some (if status = BLADERF_ERR_TIME_PAST E \<or> status = 0 then sint nsamples else status, s')
         \<and> calls s' = tc # ic # calls s0
         \<and> \<not> tx_stream_enabled (handler s')"
proof -
  have s0: "tx_lazy_start E s = s0"
    using assms(6) by (simp add: tx_lazy_start_def s0_def h_def)
  have "\<not> tx_stream_enabled (handler s0)"
    using assms(6,7) unfolding s0_def h_def by (simp add: start_tx_handler)
  then show ?thesis
    using send_transfer [where E = E and s = s and data = data and nsamples = nsamples and secs = secs
        and frac_secs = frac_secs and hts = hts and sob = sob and eob = eob] assms(8-10)
    unfolding s0 h_def ic_def tc_def status_def by auto
qed

theorem send_ignores_start_failure_witness:
  "\<not> tx_stream_enabled (handler stub_state) \<and>
   fst (rf_blade_start_tx_stream config_fails_env stub_state) = - 5 \<and>
   \<not> mul2_overflows 4 \<and> \<not> tx_capacity_exceeded (handler stub_state) 4 \<and>
   (\<exists>s'. rf_blade_send_timed_multi config_fails_env stub_state (\<lambda>i. None) 4 0 0 False True True = Some (4, s') \<and>
      calls s' =
        [tx_transfer_call stub_handler 4 (r_buffer ok_reply)
           (tx_metadata config_fails_env stub_handler 0 0 False True True),
         tx_interleave_call stub_handler 4 (tx_convert_loop config_fails_env stub_handler (\<lambda>i. None) 4),
         tx_sync_config_call stub_handler] \<and>
      \<not> tx_stream_enabled (handler s'))"
proof -
  have idle: "\<not> tx_stream_enabled (handler stub_state)" "handler stub_state = stub_handler"
    by (simp_all add: stub_state_def stub_handler_def)
  have ok: "r_status ok_reply = 0"
    by (simp add: ok_reply_def)
  show ?thesis
    using send_ignores_start_failure [where E = config_fails_env and s = stub_state
          and data = "\<lambda>i. None" and nsamples = 4 and secs = 0 and frac_secs = 0 and hts = False
          and sob = True and eob = True]
      stub_tx_capacity idle
    by (simp add: config_fails_start config_fails_env_simps ok)
qed

lemma send_calls:
  assumes "\<not> mul2_overflows nsamples"
  shows "\<exists>ret s' rest. rf_blade_send_timed_multi E s data nsamples secs frac_secs hts sob eob = Some (ret, s') \<and>
           calls s' = rest @ calls (tx_lazy_start E s) \<and> (\<forall>c\<in>set rest. \<not> is_stream_start_call c)"
proof -
  let ?ic = "tx_interleave_call (handler s) nsamples (tx_convert_loop E (handler s) data nsamples)"
  let ?s0 = "tx_lazy_start E s"
  let ?tc = "tx_transfer_call (handler s) nsamples (r_buffer (bladerf E (?ic # calls ?s0)))
               (tx_metadata E (handler s) secs frac_secs hts sob eob)"
  have nc: "\<not> is_stream_start_call ?ic" "\<not> is_stream_start_call ?tc"
    by (simp_all add: tx_interleave_call_def tx_transfer_call_def)
  consider "tx_capacity_exceeded (handler s) nsamples"
    | "\<not> tx_capacity_exceeded (handler s) nsamples" "r_status (bladerf E (?ic # calls ?s0)) \<noteq> 0"
    | "\<not> tx_capacity_exceeded (handler s) nsamples" "r_status (bladerf E (?ic # calls ?s0)) = 0"
    by blast
  then show ?thesis
  proof cases
    case 1
    have "rf_blade_send_timed_multi E s data nsamples secs frac_secs hts sob eob = Some (- 1, ?s0)"
      by (rule send_capacity_error [OF assms 1])
    then show ?thesis
      by (intro exI [of _ "- 1"] exI [of _ ?s0] exI [of _ "[]"]) simp
  next
    case 2
    obtain s' where "rf_blade_send_timed_multi E s data nsamples secs frac_secs hts sob eob = Some (- 1, s')"
      "calls s' = ?ic # calls ?s0"
      using send_interleave_error [where secs = secs and frac_secs = frac_secs and hts = hts and sob = sob
          and eob = eob, OF assms 2] by blast
    then show ?thesis
      using nc by (intro exI [of _ "- 1"] exI [of _ s'] exI [of _ "[?ic]"]) simp
  next
    case 3
    obtain ret s' where "rf_blade_send_timed_multi E s data nsamples secs frac_secs hts sob eob = Some (ret, s')"
      "calls s' = ?tc # ?ic # calls ?s0"
      using send_transfer [OF assms 3] by blast
    then show ?thesis
      using nc by (intro exI [of _ ret] exI [of _ s'] exI [of _ "[?tc, ?ic]"]) simp
  qed
qed

text \<open>
  C4: a transmit call on an idle TX stream runs \<^verbatim>\<open>rf_blade_start_tx_stream\<close> exactly once,
  before any other library call of the transmit call: the calls it issues are those of
  one stream start (the sync configuration first, and no second one) followed by calls
  none of which belongs to a stream start. A transmit call on a stream that is already
  streaming issues no call of a stream start.
\<close>

theorem send_starts_idle_stream_once:
  assumes "\<not> mul2_overflows nsamples"
  shows "\<exists>ret s' rest.
           rf_blade_send_timed_multi E s data nsamples secs frac_secs hts sob eob = Some (ret, s') \<and>
           (\<forall>c\<in>set rest. \<not> is_stream_start_call c) \<and>
           (if tx_stream_enabled (handler s) then calls s' = rest @ calls s
            else calls s' = rest @ calls (snd (rf_blade_start_tx_stream E s)) \<and>
                 (\<exists>pre. calls (snd (rf_blade_start_tx_stream E s)) = pre @ calls s \<and> pre \<noteq> [] \<and>
                    last pre = tx_sync_config_call (handler s) \<and>
                    (\<forall>c\<in>set pre. is_stream_start_call c) \<and> length (filter is_sync_config pre) = 1))"
proof -
  obtain ret s' rest where r: "rf_blade_send_timed_multi E s data nsamples secs frac_secs hts sob eob = Some (ret, s')"
    "calls s' = rest @ calls (tx_lazy_start E s)" "\<forall>c\<in>set rest. \<not> is_stream_start_call c"
    using send_calls [OF assms, where E = E and s = s and data = data and secs = secs
        and frac_secs = frac_secs and hts = hts and sob = sob and eob = eob] by blast
  show ?thesis
  proof (cases "tx_stream_enabled (handler s)")
    case True
    then show ?thesis
      using r by (intro exI [of _ ret] exI [of _ s'] exI [of _ rest]) (simp add: tx_lazy_start_def)
  next
    case False
    then show ?thesis
      using r start_tx_calls [of E s]
      by (intro exI [of _ ret] exI [of _ s'] exI [of _ rest]) (simp add: tx_lazy_start_def)
  qed
qed

theorem send_starts_idle_stream_once_witness:
  "\<not> mul2_overflows 4 \<and> \<not> tx_stream_enabled (handler stub_state) \<and>
   (\<exists>ret s' rest.
      rf_blade_send_timed_multi ok_env stub_state (\<lambda>i. None) 4 0 0 False True True = Some (ret, s') \<and>
      list_all (\<lambda>c. \<not> is_stream_start_call c) rest \<and>
      calls s' = rest @ [Enable_module BLADERF_TX_X1 True, tx_sync_config_call stub_handler]) \<and>
   tx_stream_enabled (handler streaming_state) \<and>
   (\<exists>ret s' rest.
      rf_blade_send_timed_multi ok_env streaming_state (\<lambda>i. None) 4 0 0 False True True = Some (ret, s') \<and>
      list_all (\<lambda>c. \<not> is_stream_start_call c) rest \<and>
      calls s' = rest)"
proof -
  have streaming: "tx_stream_enabled (handler streaming_state)" "calls streaming_state = []"
    by (simp_all add: streaming_state_def stub_state_def stub_handler_def)
  have on: "\<exists>ret s' rest.
      rf_blade_send_timed_multi ok_env streaming_state (\<lambda>i. None) 4 0 0 False True True = Some (ret, s') \<and>
      list_all (\<lambda>c. \<not> is_stream_start_call c) rest \<and>
      calls s' = rest"
    using send_starts_idle_stream_once [OF stub_tx_capacity(1), of ok_env streaming_state "\<lambda>i. None" 0 0 False
        True True] streaming
    unfolding list_all_iff by simp
  have start: "calls (snd (rf_blade_start_tx_stream ok_env stub_state)) =
      [Enable_module BLADERF_TX_X1 True, tx_sync_config_call stub_handler]"
    by (simp add: rf_blade_start_tx_stream_def lib_call_def ok_env_reply ok_reply_def)
       (simp add: stub_state_def stub_handler_def)
  have idle: "\<not> tx_stream_enabled (handler stub_state)"
    by (simp add: stub_state_def stub_handler_def)
  have "\<exists>ret s' rest.
      rf_blade_send_timed_multi ok_env stub_state (\<lambda>i. None) 4 0 0 False True True = Some (ret, s') \<and>
      list_all (\<lambda>c. \<not> is_stream_start_call c) rest \<and>
      calls s' = rest @ [Enable_module BLADERF_TX_X1 True, tx_sync_config_call stub_handler]"
    using send_starts_idle_stream_once [OF stub_tx_capacity(1), of ok_env stub_state "\<lambda>i. None" 0 0 False True True]
      idle
    unfolding list_all_iff
    by (simp add: start, elim exE conjE, intro exI conjI) assumption+
  then show ?thesis
    using stub_tx_capacity(1) idle streaming(1) on by simp
qed

subsection \<open>The slices of the TX scratch buffer\<close>

lemma tx_offsets:
  assumes inv: "handler_inv h" and i: "i < unat (nof_tx_channels h)"
    and no: "\<not> mul2_overflows n" and cap: "\<not> tx_capacity_exceeded h n"
  shows "unat (2 * n) = 2 * unat n"
    and "unat (2 * n * of_nat i) = 2 * unat n * i"
    and "unat (ucast (2 * n * of_nat i) * sample_size h) = 2 * unat n * i * unat (sample_size h)"
    and "unat (scast (2 * n) * sample_size h) = 2 * unat n * unat (sample_size h)"
proof -
  have nz: "nof_tx_channels h \<noteq> 0"
    using i by auto
  have b: "0 \<le> sint n" "sint n \<le> 131072"
    using tx_capacity_bounds [OF inv nz no cap] by simp_all
  have nof: "nof_tx_channels h = 1 \<or> nof_tx_channels h = 2"
    using inv nz word32_le_2_cases [of "nof_tx_channels h"] by (auto simp: handler_inv_def)
  have ss: "sample_size h = 1 \<or> sample_size h = 2"
    using inv by (auto simp: handler_inv_def)
  have "sint n < 2 ^ 32"
    using sint_lt [of n] by simp
  then have su: "sint n = uint n"
    using b(1) by (simp add: uint_sint take_bit_int_eq_self)
  have "int (unat n) \<le> 131072"
    using b(2) unfolding su by simp
  then have n: "unat n \<le> 131072"
    by linarith
  show 1: "unat (2 * n) = 2 * unat n"
    using n by (simp add: unat_word_ariths)
  have ii: "i = 0 \<or> i = 1"
    using i nof by auto
  then show 2: "unat (2 * n * of_nat i) = 2 * unat n * i"
    using 1 by auto
  have uc: "unat (ucast (2 * n) :: 64 word) = 2 * unat n"
    using 1 n by (simp add: unsigned_ucast_eq take_bit_nat_eq_self)
  have "unat ((ucast (2 * n) :: 64 word) * sample_size h) = 2 * unat n * unat (sample_size h)"
    using ss n uc by (auto simp: unat_word_ariths)
  then show "unat (ucast (2 * n * of_nat i) * sample_size h) = 2 * unat n * i * unat (sample_size h)"
    using ii by auto
  have u2: "uint (2 * n) = 2 * uint n"
    unfolding uint_nat 1 by simp
  have "(scast (2 * n) :: 64 word) = ucast (2 * n)"
    by (simp only: scast_twice [OF no] su ucast_eq u2)
  then show "unat (scast (2 * n) * sample_size h) = 2 * unat n * unat (sample_size h)"
    using ss n uc by (auto simp: unat_word_ariths)
qed

lemma handler_inv_width:
  assumes "handler_inv h"
  shows "buffer_format h = BLADERF_FORMAT_SC8_Q7 \<Longrightarrow> unat (sample_size h) = 1"
    and "buffer_format h \<noteq> BLADERF_FORMAT_SC8_Q7 \<Longrightarrow> unat (sample_size h) = 2"
  using assms by (auto simp: handler_inv_def)

text \<open>
  Round \<open>j\<close> of the loop writes the bytes from \<open>M * j\<close> up to \<open>M * j + M\<close>, where \<open>M\<close> is
  \<open>2 * nsamples\<close> samples of the configured width, and no other byte.
\<close>

lemma tx_convert_channel_outside:
  assumes inv: "handler_inv h" and j: "j < unat (nof_tx_channels h)"
    and no: "\<not> mul2_overflows n" and cap: "\<not> tx_capacity_exceeded h n"
    and out: "\<not> (2 * unat n * unat (sample_size h) * j \<le> a \<and>
                 a < 2 * unat n * unat (sample_size h) * j + 2 * unat n * unat (sample_size h))"
  shows "tx_convert_channel E h data n j buf a = buf a"
proof (cases "data j")
  case None
  then have "tx_convert_channel E h data n j buf =
               memset_zero buf (2 * unat n * j * unat (sample_size h)) (2 * unat n * unat (sample_size h))"
    by (simp add: tx_convert_channel_def tx_offsets [OF inv j no cap])
  then show ?thesis
    using out by (auto simp: memset_zero_def ac_simps)
next
  case (Some x)
  show ?thesis
  proof (cases "buffer_format h = BLADERF_FORMAT_SC8_Q7")
    case True
    then show ?thesis
      using out Some handler_inv_width(1) [OF inv]
      by (auto simp: tx_convert_channel_def srsran_vec_convert_fb_def tx_offsets [OF inv j no cap])
  next
    case False
    then show ?thesis
      using out Some handler_inv_width(2) [OF inv]
      by (auto simp: tx_convert_channel_def srsran_vec_convert_fi_def tx_offsets [OF inv j no cap])
  qed
qed

lemma tx_convert_channel_null:
  assumes inv: "handler_inv h" and j: "j < unat (nof_tx_channels h)"
    and no: "\<not> mul2_overflows n" and cap: "\<not> tx_capacity_exceeded h n"
    and null: "data j = None"
    and a: "2 * unat n * unat (sample_size h) * j \<le> a"
      "a < 2 * unat n * unat (sample_size h) * j + 2 * unat n * unat (sample_size h)"
  shows "tx_convert_channel E h data n j buf a = 0"
proof -
  have "tx_convert_channel E h data n j buf =
          memset_zero buf (2 * unat n * j * unat (sample_size h)) (2 * unat n * unat (sample_size h))"
    using null by (simp add: tx_convert_channel_def tx_offsets [OF inv j no cap])
  then show ?thesis
    using a by (simp add: memset_zero_def ac_simps)
qed

lemma tx_loop_null_slice:
  assumes inv: "handler_inv h" and no: "\<not> mul2_overflows n" and cap: "\<not> tx_capacity_exceeded h n"
    and null: "data i = None"
    and a: "2 * unat n * unat (sample_size h) * i \<le> a"
      "a < 2 * unat n * unat (sample_size h) * i + 2 * unat n * unat (sample_size h)"
  shows "i < k \<Longrightarrow> k \<le> unat (nof_tx_channels h) \<Longrightarrow>
         fold (tx_convert_channel E h data n) [0..<k] buf a = 0"
proof (induction k)
  case 0
  then show ?case by simp
next
  case (Suc k)
  have k: "k < unat (nof_tx_channels h)"
    using Suc.prems by simp
  show ?case
  proof (cases "i = k")
    case True
    then show ?thesis
      using tx_convert_channel_null [OF inv k no cap, of data a] null a by simp
  next
    case False
    then have ik: "Suc i \<le> k"
      using Suc.prems by simp
    have "2 * unat n * unat (sample_size h) * Suc i \<le> 2 * unat n * unat (sample_size h) * k"
      using ik by (rule mult_le_mono2)
    then have "a < 2 * unat n * unat (sample_size h) * k"
      using a(2) by simp
    then have "tx_convert_channel E h data n k (fold (tx_convert_channel E h data n) [0..<k] buf) a =
               fold (tx_convert_channel E h data n) [0..<k] buf a"
      by (intro tx_convert_channel_outside [OF inv k no cap]) simp
    then show ?thesis
      using Suc.IH False Suc.prems by simp
  qed
qed


lemma send_interleave_first:
  fixes E :: "('f, 'd) env" and s :: rf_state and data :: "nat \<Rightarrow> (nat \<Rightarrow> 'f) option"
    and nsamples :: "32 word" and secs :: int and frac_secs :: 'd and hts sob eob :: bool
  assumes no: "\<not> mul2_overflows nsamples" and cap: "\<not> tx_capacity_exceeded (handler s) nsamples"
  shows "\<exists>ret s' rest. rf_blade_send_timed_multi E s data nsamples secs frac_secs hts sob eob = Some (ret, s') \<and>
           calls s' = rest @ tx_interleave_call (handler s) nsamples (tx_convert_loop E (handler s) data nsamples)
                        # calls (tx_lazy_start E s) \<and>
           (rest = [] \<or> (\<exists>b m. rest = [tx_transfer_call (handler s) nsamples b m]))"
proof -
  let ?ic = "tx_interleave_call (handler s) nsamples (tx_convert_loop E (handler s) data nsamples)"
  let ?s0 = "tx_lazy_start E s"
  let ?tc = "tx_transfer_call (handler s) nsamples (r_buffer (bladerf E (?ic # calls ?s0)))
               (tx_metadata E (handler s) secs frac_secs hts sob eob)"
  show ?thesis
  proof (cases "r_status (bladerf E (?ic # calls ?s0)) = 0")
    case False
    obtain s' where "rf_blade_send_timed_multi E s data nsamples secs frac_secs hts sob eob = Some (- 1, s')"
      "calls s' = ?ic # calls ?s0"
      using send_interleave_error [where secs = secs and frac_secs = frac_secs and hts = hts and sob = sob
          and eob = eob, OF no cap False] by blast
    then show ?thesis
      by (intro exI [of _ "- 1"] exI [of _ s'] exI [of _ "[]"]) simp
  next
    case True
    obtain ret s' where "rf_blade_send_timed_multi E s data nsamples secs frac_secs hts sob eob = Some (ret, s')"
      "calls s' = ?tc # ?ic # calls ?s0"
      using send_transfer [OF no cap True] by blast
    then show ?thesis
      by (intro exI [of _ ret] exI [of _ s'] exI [of _ "[?tc]"]) auto
  qed
qed

text \<open>
  C6: in a transmit call that passes the capacity test, on a handler as open leaves it,
  the buffer handed to the interleave step (the first library call after the lazy start,
  followed at most by the transfer) holds zero in every byte of the slice of a channel
  \<open>i\<close> below the TX channel count whose data pointer is null: the \<open>2 * nsamples\<close>
  samples of the configured width that start at sample \<open>2 * nsamples * i\<close>.
\<close>

theorem send_null_channel_zero_filled:
  fixes E :: "('f, 'd) env" and s :: rf_state and data :: "nat \<Rightarrow> (nat \<Rightarrow> 'f) option"
    and nsamples :: "32 word" and secs :: int and frac_secs :: 'd and hts sob eob :: bool
  defines "h \<equiv> handler s"
  defines "buf \<equiv> tx_convert_loop E h data nsamples"
  defines "width \<equiv> unat (sample_size h)"
  assumes "handler_inv h" and "\<not> mul2_overflows nsamples" and "\<not> tx_capacity_exceeded h nsamples"
    and "i < unat (nof_tx_channels h)" and "data i = None"
  shows "0 \<le> sint nsamples
       \<and> (\<forall>a. 2 * unat nsamples * width * i \<le> a \<and> a < 2 * unat nsamples * width * i + 2 * unat nsamples * width
              \<longrightarrow> buf a = 0)
       \<and> (\<exists>ret s' rest.
             rf_blade_send_timed_multi E s data nsamples secs frac_secs hts sob eob = Some (ret, s') \<and>
             calls s' = rest @ tx_interleave_call h nsamples buf # calls (tx_lazy_start E s) \<and>
             (rest = [] \<or> (\<exists>b m. rest = [tx_transfer_call h nsamples b m])))"
proof (intro conjI allI impI)
  have nz: "nof_tx_channels h \<noteq> 0"
    using assms(7) by auto
  show "0 \<le> sint nsamples"
    using tx_capacity_bounds [OF assms(4) nz assms(5,6)] by simp
next
  fix a
  assume a: "2 * unat nsamples * width * i \<le> a \<and>
             a < 2 * unat nsamples * width * i + 2 * unat nsamples * width"
  show "buf a = 0"
    unfolding buf_def tx_convert_loop_def
    using tx_loop_null_slice [where h = h and n = nsamples and data = data and i = i and a = a
        and k = "unat (nof_tx_channels h)" and E = E and buf = "tx_buffer h"] a assms(4-8)
    by (simp add: width_def)
next
  show "\<exists>ret s' rest.
          rf_blade_send_timed_multi E s data nsamples secs frac_secs hts sob eob = Some (ret, s') \<and>
          calls s' = rest @ tx_interleave_call h nsamples buf # calls (tx_lazy_start E s) \<and>
          (rest = [] \<or> (\<exists>b m. rest = [tx_transfer_call h nsamples b m]))"
    unfolding buf_def h_def
    by (rule send_interleave_first [OF assms(5) assms(6) [unfolded h_def]])
qed


theorem send_null_channel_zero_filled_witness:
  "handler_inv (handler dual_tx_state) \<and> \<not> mul2_overflows 4 \<and>
   \<not> tx_capacity_exceeded (handler dual_tx_state) 4 \<and>
   (1 :: nat) < unat (nof_tx_channels (handler dual_tx_state)) \<and> ch0_only 1 = None \<and>
   tx_buffer (handler dual_tx_state) 20 = 1 \<and>
   tx_convert_loop ok_env (handler dual_tx_state) ch0_only 4 20 = 0"
proof -
  have hyps: "handler_inv (handler dual_tx_state)" "\<not> mul2_overflows 4"
    "\<not> tx_capacity_exceeded (handler dual_tx_state) 4"
    "(1 :: nat) < unat (nof_tx_channels (handler dual_tx_state))" "ch0_only 1 = None"
    by (simp_all add: handler_inv_def dual_tx_state_def stub_state_def stub_handler_def mul2_overflows_def
          tx_capacity_exceeded_def CONVERT_BUFFER_SIZE_def ch0_only_def)
  have w: "unat (sample_size (handler dual_tx_state)) = 2" "tx_buffer (handler dual_tx_state) 20 = 1"
    by (simp_all add: dual_tx_state_def stub_state_def stub_handler_def)
  have "\<forall>a. 2 * unat (4 :: 32 word) * unat (sample_size (handler dual_tx_state)) * 1 \<le> a \<and>
            a < 2 * unat (4 :: 32 word) * unat (sample_size (handler dual_tx_state)) * 1
                  + 2 * unat (4 :: 32 word) * unat (sample_size (handler dual_tx_state))
          \<longrightarrow> tx_convert_loop ok_env (handler dual_tx_state) ch0_only 4 a = 0"
    using send_null_channel_zero_filled [where E = ok_env and s = dual_tx_state and data = ch0_only
        and nsamples = 4 and i = 1 and secs = 0 and frac_secs = 0 and hts = False and sob = True
        and eob = True, OF hyps]
    by (rule conjunct1 [OF conjunct2])
  then have "tx_convert_loop ok_env (handler dual_tx_state) ch0_only 4 20 = 0"
    unfolding w by simp
  then show ?thesis
    using hyps w by simp
qed

subsection \<open>The receive path\<close>

lemma rx_overrun_defined:
  "nof_rx_channels (handler s) \<noteq> 0 \<Longrightarrow>
   rx_overrun E s error n meta =
     Some (s\<lparr>faults :=
       (if m_status meta AND BLADERF_META_STATUS_OVERRUN E \<noteq> 0
        then (case blade_error_handler s of None \<Rightarrow> faults s
              | Some f \<Rightarrow> (f, blade_error_handler_arg s,
                   if n \<noteq> m_actual_count meta div nof_rx_channels (handler s)
                   then error\<lparr>err_opt := m_actual_count meta, err_type := SRSRAN_RF_ERROR_OVERFLOW\<rparr>
                   else error\<lparr>err_type := SRSRAN_RF_ERROR_UNDERFLOW\<rparr>) # faults s)
        else faults s)\<rparr>)"
  by (simp add: rx_overrun_def split: option.split)

lemma recv_transfer:
  fixes E :: "('f, 'd) env" and s :: rf_state and data :: "nat \<Rightarrow> (nat \<Rightarrow> 'f) option"
    and nsamples :: "32 word" and secs :: "int option" and frac_secs :: "'d option" and error :: srsran_rf_error
  defines "h \<equiv> handler s"
  defines "tc \<equiv> rx_transfer_call E h nsamples"
  defines "r \<equiv> bladerf E (tc # calls s)"
  defines "dc \<equiv> rx_deinterleave_call h (r_meta r) (r_buffer r)"
  defines "rd \<equiv> bladerf E (dc # tc # calls s)"
  defines "q \<equiv> m_actual_count (r_meta r) div nof_rx_channels h"
  assumes "nof_rx_channels h \<noteq> 0" and "\<not> rx_capacity_exceeded h nsamples" and "r_status r = 0"
  shows "\<exists>res. rf_blade_recv_with_time_multi E s error data nsamples secs frac_secs = Some res
         \<and> rv_ret res = (if r_status rd \<noteq> 0 then - 1 else sint q)
         \<and> calls (rv_state res) = dc # tc # calls s
         \<and> handler (rv_state res) = h\<lparr>rx_buffer := r_buffer rd\<rparr>
         \<and> faults (rv_state res) =
             (if m_status (r_meta r) AND BLADERF_META_STATUS_OVERRUN E \<noteq> 0
              then (case blade_error_handler s of None \<Rightarrow> faults s
                    | Some f \<Rightarrow> (f, blade_error_handler_arg s,
                         if nsamples \<noteq> q
                         then error\<lparr>err_opt := m_actual_count (r_meta r), err_type := SRSRAN_RF_ERROR_OVERFLOW\<rparr>
                         else error\<lparr>err_type := SRSRAN_RF_ERROR_UNDERFLOW\<rparr>) # faults s)
              else faults s)
         \<and> rv_data res = (if r_status rd \<noteq> 0 then data
                          else fold (rx_convert_channel E (h\<lparr>rx_buffer := r_buffer rd\<rparr>) q)
                                 [0..<unat (nof_rx_channels h)] data)"
  using assms(7-9)
  unfolding rf_blade_recv_with_time_multi_def h_def [symmetric]
  by (simp add: Let_def lib_call_def rx_overrun_defined split_def tc_def [symmetric] r_def [symmetric]
        dc_def [symmetric] rd_def [symmetric] q_def [symmetric] h_def [symmetric]
      split: option.split)

lemma rx_env_simps:
  "bladerf (rx_env count status) (rx_transfer_call E h n # cs) =
     ok_reply\<lparr>r_buffer := (\<lambda>a. of_nat a),
               r_meta := \<lparr>m_timestamp = 3840000, m_flags = BLADERF_META_FLAG_RX_NOW E, m_status = status,
                          m_actual_count = count\<rparr>\<rparr>"
  "bladerf (rx_env count status) (rx_deinterleave_call h m b # cs) = ok_reply\<lparr>r_buffer := b\<rparr>"
  "BLADERF_META_STATUS_OVERRUN (rx_env count status) = 1"
  by (simp_all add: rx_env_def stub_env_def rx_transfer_call_def rx_deinterleave_call_def zero_meta_def)

lemma stub_rx_capacity:
  "nof_rx_channels (handler stub_state) \<noteq> 0" "\<not> rx_capacity_exceeded (handler stub_state) 100"
  by (simp_all add: rx_capacity_exceeded_def stub_state_def stub_handler_def CONVERT_BUFFER_SIZE_def)

text \<open>
  C3: when the receive transfer succeeds and its status word has the overrun bit, a
  registered handler receives exactly one event, OVERFLOW with the transport's actual
  count in \<^verbatim>\<open>opt\<close> when the requested \<^verbatim>\<open>nsamples\<close> differs from the actual count divided
  by the channel count, UNDERFLOW otherwise; without a handler no event is raised. In
  both cases the return value is what it is without an overrun: the per-channel count,
  or \<open>-1\<close> when the deinterleave step fails.
\<close>

theorem recv_overrun_raises_one_fault:
  fixes E :: "('f, 'd) env" and s :: rf_state and data :: "nat \<Rightarrow> (nat \<Rightarrow> 'f) option"
    and nsamples :: "32 word" and secs :: "int option" and frac_secs :: "'d option" and error :: srsran_rf_error
  defines "h \<equiv> handler s"
  defines "tc \<equiv> rx_transfer_call E h nsamples"
  defines "r \<equiv> bladerf E (tc # calls s)"
  defines "actual_count \<equiv> m_actual_count (r_meta r)"
  defines "rd \<equiv> bladerf E (rx_deinterleave_call h (r_meta r) (r_buffer r) # tc # calls s)"
  assumes "nof_rx_channels h \<noteq> 0" and "\<not> rx_capacity_exceeded h nsamples" and "r_status r = 0"
    and "m_status (r_meta r) AND BLADERF_META_STATUS_OVERRUN E \<noteq> 0"
  shows "\<exists>res. rf_blade_recv_with_time_multi E s error data nsamples secs frac_secs = Some res
         \<and> faults (rv_state res) =
             (case blade_error_handler s of
                None \<Rightarrow> faults s
              | Some f \<Rightarrow> (f, blade_error_handler_arg s,
                   if nsamples \<noteq> actual_count div nof_rx_channels h
                   then error\<lparr>err_opt := actual_count, err_type := SRSRAN_RF_ERROR_OVERFLOW\<rparr>
                   else error\<lparr>err_type := SRSRAN_RF_ERROR_UNDERFLOW\<rparr>) # faults s)
         \<and> rv_ret res = (if r_status rd \<noteq> 0 then - 1 else sint (actual_count div nof_rx_channels h))"
  using recv_transfer [where E = E and s = s and data = data and nsamples = nsamples and secs = secs
      and frac_secs = frac_secs and error = error] assms(6-9)
  unfolding h_def tc_def r_def actual_count_def rd_def
  by (elim meta_impE exE conjE, simp_all)


theorem recv_overrun_raises_one_fault_witness:
  "nof_rx_channels (handler stub_state) \<noteq> 0 \<and> \<not> rx_capacity_exceeded (handler stub_state) 100 \<and>
   (\<exists>res. rf_blade_recv_with_time_multi (rx_env 50 1) stub_state
             \<lparr>err_type = SRSRAN_RF_ERROR_OTHER, err_opt = 77\<rparr> (\<lambda>i. None) 100 None None = Some res \<and>
          faults (rv_state res) = [(7, 9, \<lparr>err_type = SRSRAN_RF_ERROR_OVERFLOW, err_opt = 50\<rparr>)] \<and>
          rv_ret res = 50) \<and>
   (\<exists>res. rf_blade_recv_with_time_multi (rx_env 100 1) stub_state
             \<lparr>err_type = SRSRAN_RF_ERROR_OTHER, err_opt = 77\<rparr> (\<lambda>i. None) 100 None None = Some res \<and>
          faults (rv_state res) = [(7, 9, \<lparr>err_type = SRSRAN_RF_ERROR_UNDERFLOW, err_opt = 77\<rparr>)] \<and>
          rv_ret res = 100) \<and>
   (\<exists>res. rf_blade_recv_with_time_multi (rx_env 50 1) (stub_state\<lparr>blade_error_handler := None\<rparr>)
             \<lparr>err_type = SRSRAN_RF_ERROR_OTHER, err_opt = 77\<rparr> (\<lambda>i. None) 100 None None = Some res \<and>
          faults (rv_state res) = [] \<and>
          rv_ret res = 50)"
proof -
  have st: "blade_error_handler stub_state = Some 7" "blade_error_handler_arg stub_state = 9"
    "faults stub_state = []" "nof_rx_channels (handler stub_state) = 1"
    by (simp_all add: stub_state_def stub_handler_def)
  have ok: "r_status ok_reply = 0"
    by (simp add: ok_reply_def)
  show ?thesis
    using recv_overrun_raises_one_fault [where E = "rx_env 50 1" and s = stub_state and nsamples = 100
          and error = "\<lparr>err_type = SRSRAN_RF_ERROR_OTHER, err_opt = 77\<rparr>" and data = "\<lambda>i. None"
          and secs = None and frac_secs = None]
      recv_overrun_raises_one_fault [where E = "rx_env 100 1" and s = stub_state and nsamples = 100
          and error = "\<lparr>err_type = SRSRAN_RF_ERROR_OTHER, err_opt = 77\<rparr>" and data = "\<lambda>i. None"
          and secs = None and frac_secs = None]
      recv_overrun_raises_one_fault [where E = "rx_env 50 1" and s = "stub_state\<lparr>blade_error_handler := None\<rparr>"
          and nsamples = 100
          and error = "\<lparr>err_type = SRSRAN_RF_ERROR_OTHER, err_opt = 77\<rparr>" and data = "\<lambda>i. None"
          and secs = None and frac_secs = None]
      stub_rx_capacity
    by (simp add: rx_env_simps st ok)
qed

subsection \<open>The count and the conversion of a successful receive\<close>

lemma rx_convert_channel_other:
  "i \<noteq> j \<Longrightarrow> rx_convert_channel E h n j data i = data i"
  by (simp add: rx_convert_channel_def split: option.split)

lemma rx_convert_channel_same:
  "rx_convert_channel E h n i data i =
     (case data i of None \<Rightarrow> None
      | Some z \<Rightarrow> Some (if buffer_format h = BLADERF_FORMAT_SC8_Q7
                        then srsran_vec_convert_bf E (rx_buffer h) (unat (2 * n * of_nat i)) (iq_scale h) z (2 * n)
                        else srsran_vec_convert_if E (rx_buffer h) (unat (2 * n * of_nat i)) (iq_scale h) z (2 * n)))"
  by (simp add: rx_convert_channel_def split: option.split)

lemma rx_convert_fold:
  "fold (rx_convert_channel E h n) [0..<k] data i =
     (if i < k then rx_convert_channel E h n i data i else data i)"
proof (induction k)
  case 0
  then show ?case by simp
next
  case (Suc k)
  show ?case
  proof (cases "i = k")
    case True
    then show ?thesis using Suc by (simp add: rx_convert_channel_same)
  next
    case False
    then show ?thesis using Suc by (simp add: rx_convert_channel_other)
  qed
qed

lemma word32_count:
  fixes ac nof :: "32 word"
  assumes "unat ac < 2 ^ 31"
  shows "sint (ac div nof) = int (unat ac div unat nof)"
    and "unat (2 * (ac div nof)) = 2 * (unat ac div unat nof)"
proof -
  have q: "unat (ac div nof) = unat ac div unat nof"
    by (rule unat_div)
  have "unat ac div unat nof \<le> unat ac"
    by (rule div_le_dividend)
  then have lt: "unat (ac div nof) < 2 ^ 31"
    using assms q by linarith
  have u: "uint (ac div nof) = int (unat (ac div nof))"
    by (rule uint_nat)
  have lt': "uint (ac div nof) < 2 ^ 31"
    using lt by (metis of_nat_less_iff of_nat_numeral of_nat_power uint_nat)
  have ge: "- (2 ^ 31) \<le> uint (ac div nof)"
    by (rule order_trans [of _ 0]) simp_all
  have "signed_take_bit 31 (uint (ac div nof)) = uint (ac div nof)"
    using ge lt' by (rule signed_take_bit_int_eq_self)
  then have "sint (ac div nof) = uint (ac div nof)"
    by (simp add: sint_uint)
  then show "sint (ac div nof) = int (unat ac div unat nof)"
    using u q by linarith
  show "unat (2 * (ac div nof)) = 2 * (unat ac div unat nof)"
    using lt unfolding q [symmetric] by (simp add: unat_word_ariths)
qed

text \<open>
  C5: a receive call that passes the capacity test and whose transfer and deinterleave
  both succeed returns the transport's actual count divided by the RX channel count (a
  count below \<open>2\<^sup>3\<^sup>1\<close>, so that the \<^verbatim>\<open>int\<close> result holds it). For each channel below the
  channel count with a buffer, exactly the first \<open>2 * count\<close> components of the caller's
  buffer are written, each with the conversion of the scratch-buffer sample at the
  channel's offset; the rest of the buffer, the null channels and the channels from the
  channel count on are left as they were.
\<close>

theorem recv_returns_actual_count:
  fixes E :: "('f, 'd) env" and s :: rf_state and data :: "nat \<Rightarrow> (nat \<Rightarrow> 'f) option"
    and nsamples :: "32 word" and secs :: "int option" and frac_secs :: "'d option" and error :: srsran_rf_error
  defines "h \<equiv> handler s"
  defines "tc \<equiv> rx_transfer_call E h nsamples"
  defines "r \<equiv> bladerf E (tc # calls s)"
  defines "actual_count \<equiv> m_actual_count (r_meta r)"
  defines "rd \<equiv> bladerf E (rx_deinterleave_call h (r_meta r) (r_buffer r) # tc # calls s)"
  defines "count \<equiv> unat actual_count div unat (nof_rx_channels h)"
  defines "off \<equiv> \<lambda>i. unat (2 * (actual_count div nof_rx_channels h) * of_nat i)"
  assumes "nof_rx_channels h \<noteq> 0" and "\<not> rx_capacity_exceeded h nsamples" and "r_status r = 0"
    and "r_status rd = 0" and "unat actual_count < 2 ^ 31"
  shows "\<exists>res. rf_blade_recv_with_time_multi E s error data nsamples secs frac_secs = Some res
         \<and> rv_ret res = int count
         \<and> (\<forall>i z. i < unat (nof_rx_channels h) \<and> data i = Some z \<longrightarrow>
               (\<exists>z'. rv_data res i = Some z' \<and>
                  (\<forall>k. z' k =
                     (if k < 2 * count
                      then (if buffer_format h = BLADERF_FORMAT_SC8_Q7
                            then convert_bf E (r_buffer rd (off i + k)) (iq_scale h)
                            else convert_if E (read_i16 (r_buffer rd) (off i + k)) (iq_scale h))
                      else z k))))
         \<and> (\<forall>i. data i = None \<or> unat (nof_rx_channels h) \<le> i \<longrightarrow> rv_data res i = data i)"
proof -
  let ?q = "actual_count div nof_rx_channels h"
  let ?h' = "h\<lparr>rx_buffer := r_buffer rd\<rparr>"
  obtain res where res: "rf_blade_recv_with_time_multi E s error data nsamples secs frac_secs = Some res"
    "rv_ret res = sint ?q"
    "rv_data res = fold (rx_convert_channel E ?h' ?q) [0..<unat (nof_rx_channels h)] data"
    using recv_transfer [where E = E and s = s and data = data and nsamples = nsamples and secs = secs
        and frac_secs = frac_secs and error = error] assms(8-11)
    unfolding h_def tc_def r_def actual_count_def rd_def by auto
  note cnt = word32_count [OF assms(12), of "nof_rx_channels h", folded count_def]
  have ret: "rv_ret res = int count"
    using res(2) cnt(1) by simp
  have null: "rv_data res i = data i" if "data i = None \<or> unat (nof_rx_channels h) \<le> i" for i
    using that unfolding res(3) rx_convert_fold by (auto simp: rx_convert_channel_same)
  have conv: "\<exists>z'. rv_data res i = Some z' \<and>
                  (\<forall>k. z' k =
                     (if k < 2 * count
                      then (if buffer_format h = BLADERF_FORMAT_SC8_Q7
                            then convert_bf E (r_buffer rd (off i + k)) (iq_scale h)
                            else convert_if E (read_i16 (r_buffer rd) (off i + k)) (iq_scale h))
                      else z k))"
    if "i < unat (nof_rx_channels h)" "data i = Some z" for i z
    using that unfolding res(3) rx_convert_fold
    by (simp add: rx_convert_channel_same srsran_vec_convert_bf_def srsran_vec_convert_if_def cnt(2) off_def)
  show ?thesis
    using res(1) ret null conv by (intro exI [of _ res]) blast
qed

theorem recv_returns_actual_count_witness:
  "nof_rx_channels (handler stub_state) \<noteq> 0 \<and> \<not> rx_capacity_exceeded (handler stub_state) 100 \<and>
   (\<exists>res z'. rf_blade_recv_with_time_multi (rx_env 3 0) stub_state
             \<lparr>err_type = SRSRAN_RF_ERROR_OTHER, err_opt = 77\<rparr> (\<lambda>i. if i = 0 then Some (\<lambda>k. 1000) else None)
             100 None None = Some res \<and>
          rv_ret res = 3 \<and> rv_data res 0 = Some z' \<and> z' 5 = 2826 \<and> z' 6 = 1000 \<and> rv_data res 1 = None)"
proof -
  let ?data = "\<lambda>i :: nat. if i = 0 then Some (\<lambda>k :: nat. 1000 :: int) else None"
  have st: "nof_rx_channels (handler stub_state) = 1" "calls stub_state = []"
    "buffer_format (handler stub_state) = BLADERF_FORMAT_SC16_Q11"
    by (simp_all add: stub_state_def stub_handler_def)
  have ok: "r_status ok_reply = 0"
    by (simp add: ok_reply_def)
  have cv: "convert_if (rx_env 3 0) w sc = sint w" for w sc
    by (simp add: rx_env_def stub_env_def)
  have rd: "read_i16 (\<lambda>a. of_nat a) 5 = 2826"
    by (simp add: read_i16_def word_cat_eq)
  have "\<exists>res. rf_blade_recv_with_time_multi (rx_env 3 0) stub_state \<lparr>err_type = SRSRAN_RF_ERROR_OTHER, err_opt = 77\<rparr>
        ?data 100 None None = Some res \<and> rv_ret res = 3 \<and>
    (\<forall>i z. i < 1 \<and> ?data i = Some z \<longrightarrow>
       (\<exists>z'. rv_data res i = Some z' \<and>
          (\<forall>k. z' k = (if k < 6 then sint (read_i16 (\<lambda>a. of_nat a) (0 + k)) else z k)))) \<and>
    (\<forall>i. ?data i = None \<or> 1 \<le> i \<longrightarrow> rv_data res i = ?data i)"
    using recv_returns_actual_count [where E = "rx_env 3 0" and s = stub_state and nsamples = 100
          and error = "\<lparr>err_type = SRSRAN_RF_ERROR_OTHER, err_opt = 77\<rparr>" and data = ?data
          and secs = None and frac_secs = None]
      stub_rx_capacity
    by (simp add: rx_env_simps st ok cv cong: if_cong)
  then obtain res where res:
    "rf_blade_recv_with_time_multi (rx_env 3 0) stub_state \<lparr>err_type = SRSRAN_RF_ERROR_OTHER, err_opt = 77\<rparr>
        ?data 100 None None = Some res" "rv_ret res = 3"
    "\<forall>i z. i < 1 \<and> ?data i = Some z \<longrightarrow>
       (\<exists>z'. rv_data res i = Some z' \<and>
          (\<forall>k. z' k = (if k < 6 then sint (read_i16 (\<lambda>a. of_nat a) (0 + k)) else z k)))"
    "\<forall>i. ?data i = None \<or> 1 \<le> i \<longrightarrow> rv_data res i = ?data i"
    by (elim exE conjE)
  from res(3) obtain z' where z: "rv_data res 0 = Some z'"
    "\<forall>k. z' k = (if k < 6 then sint (read_i16 (\<lambda>a. of_nat a) (0 + k)) else 1000)"
    by auto
  have "z' 5 = 2826" "z' 6 = 1000"
    using z(2) rd by simp_all
  moreover have "rv_data res 1 = None"
    using res(4) by simp
  ultimately show ?thesis
    using res(1,2) z(1) stub_rx_capacity by simp
qed

subsection \<open>Where the capacity test of the receive path is exact\<close>

lemma word32_twice:
  fixes n :: "32 word"
  assumes "unat n < 2 ^ 31"
  shows "unat (ucast (2 * n) :: 64 word) = 2 * unat n"
proof -
  have "unat (2 * n) = 2 * unat n"
    using assms by (simp add: unat_word_ariths)
  moreover have "2 * unat n < 2 ^ 64"
    using assms by simp
  ultimately show ?thesis
    by (simp add: unsigned_ucast_eq take_bit_nat_eq_self)
qed

lemma rx_capacity_exact:
  assumes inv: "handler_inv h" and n: "unat n < 2 ^ 31"
  shows "rx_capacity_exceeded h n \<longleftrightarrow>
         unat CONVERT_BUFFER_SIZE < 2 * unat n * unat (sample_size h) * unat (nof_rx_channels h)"
proof -
  have nof: "nof_rx_channels h = 0 \<or> nof_rx_channels h = 1 \<or> nof_rx_channels h = 2"
    using inv word32_le_2_cases [of "nof_rx_channels h"] by (auto simp: handler_inv_def)
  have ss: "sample_size h = 1 \<or> sample_size h = 2"
    using inv by (auto simp: handler_inv_def)
  define k :: "64 word" where "k = sample_size h * ucast (nof_rx_channels h)"
  have k: "unat k = unat (sample_size h) * unat (nof_rx_channels h)" "unat k \<le> 4"
    using nof ss by (auto simp: k_def)
  define w :: "64 word" where "w = ucast (2 * n)"
  have w: "unat w = 2 * unat n"
    unfolding w_def by (rule word32_twice [OF n])
  have "unat w * unat k \<le> 2 * unat n * 4"
    unfolding w using k(2) by (intro mult_le_mono2)
  also have "\<dots> < 2 ^ 64"
    using n by simp
  finally have "unat (w * k) = unat w * unat k"
    by (simp add: unat_mult_lem [where 'a = 64, simplified])
  then have "unat (w * k) = 2 * unat n * unat (sample_size h) * unat (nof_rx_channels h)"
    unfolding w k(1) by (simp add: mult.assoc)
  moreover have "rx_capacity_exceeded h n \<longleftrightarrow> unat CONVERT_BUFFER_SIZE < unat (w * k)"
    unfolding rx_capacity_exceeded_def w_def k_def by (simp add: word_less_nat_alt mult.assoc)
  ultimately show ?thesis
    by simp
qed

text \<open>
  Below \<open>2\<^sup>3\<^sup>1\<close> requested samples, on a handler as open leaves it, a request that needs
  more bytes than the scratch buffer holds is rejected with \<open>-1\<close>, no library call and no
  change of state.
\<close>

lemma recv_capacity_rejects:
  assumes "handler_inv (handler s)" and "unat nsamples < 2 ^ 31"
    and "unat CONVERT_BUFFER_SIZE < 2 * unat nsamples * unat (sample_size (handler s))
           * unat (nof_rx_channels (handler s))"
  shows "rf_blade_recv_with_time_multi E s error data nsamples secs frac_secs =
           Some \<lparr>rv_ret = - 1, rv_data = data, rv_secs = secs, rv_frac_secs = frac_secs, rv_state = s\<rparr>"
  using assms rx_capacity_exact [of "handler s" nsamples] by (intro recv_capacity_error) simp

subsection \<open>What open rejects and what it establishes\<close>

lemma open_rejects_channel_count_above_two:
  "nof_channels > 2 \<Longrightarrow> fst (rf_blade_open_multi E s True args nof_channels) = SRSRAN_ERROR E"
  by (simp add: rf_blade_open_multi_def)

lemma open_rejects_format:
  assumes "nof_channels \<le> 2" and "arg_string args ''format'' = Some v" and "v \<noteq> ''sc16''" and "v \<noteq> ''sc8''"
  shows "fst (rf_blade_open_multi E s True args nof_channels) = SRSRAN_ERROR E"
  using assms by (simp add: rf_blade_open_multi_def parse_string_def Let_def not_less [symmetric])

lemma open_rejects_log_level:
  assumes "nof_channels \<le> 2" and "arg_string args ''format'' = None"
    and "arg_string args ''log_level'' = Some v" and "log_level_of v = None"
  shows "fst (rf_blade_open_multi E s True args nof_channels) = SRSRAN_ERROR E"
  using assms by (simp add: rf_blade_open_multi_def parse_string_def Let_def not_less [symmetric])

lemma open_device_allocated:
  assumes "open_device E s device_id tuning_mode = (ret, H_allocated, s')"
  shows "handler s' = (handler s)\<lparr>rx_stream_enabled := False, tx_stream_enabled := False\<rparr>"
  using assms
  by (auto simp: open_device_def Let_def lib_call_def split: if_splits option.splits prod.splits)

text \<open>
  A successful open (the handle is allocated and the result is not \<^verbatim>\<open>SRSRAN_ERROR\<close>)
  leaves a handler that satisfies \<open>handler_inv\<close>.
\<close>

lemma open_success_inv:
  assumes res: "rf_blade_open_multi E s ok args nof_channels = (ret, H_allocated, s')"
    and ret: "ret \<noteq> SRSRAN_ERROR E"
  shows "handler_inv (handler s')"
proof -
  define ntx where "ntx = (let x = parse_uint32 args ''nof_tx_channels'' 0
                           in if x = 0 \<or> x > nof_channels then nof_channels else x)"
  define nrx where "nrx = (let x = parse_uint32 args ''nof_rx_channels'' 0
                           in if x = 0 \<or> x > nof_channels then nof_channels else x)"
  define fmt where "fmt = parse_string args ''format'' ''sc16''"
  define h2 where "h2 =
    (if fmt = ''sc16''
     then (handler s)\<lparr>nof_tx_channels := ntx, nof_rx_channels := nrx, iq_scale := 2048, sample_size := 2,
             format := BLADERF_FORMAT_SC16_Q11_META, buffer_format := BLADERF_FORMAT_SC16_Q11\<rparr>
     else (handler s)\<lparr>nof_tx_channels := ntx, nof_rx_channels := nrx, iq_scale := 128, sample_size := 1,
             format := BLADERF_FORMAT_SC8_Q7_META, buffer_format := BLADERF_FORMAT_SC8_Q7\<rparr>)"
  have ok: ok
  proof (rule ccontr)
    assume "\<not> ok"
    then have "rf_blade_open_multi E s ok args nof_channels = (SRSRAN_ERROR E, H_NULL, s)"
      by (simp add: rf_blade_open_multi_def)
    then show False using res by simp
  qed
  have le: "nof_channels \<le> 2"
  proof (rule ccontr)
    assume "\<not> nof_channels \<le> 2"
    then have "rf_blade_open_multi E s ok args nof_channels = (SRSRAN_ERROR E, H_allocated, s)"
      using ok by (simp add: rf_blade_open_multi_def not_le)
    then show False using res ret by simp
  qed
  then have gt: "\<not> 2 < nof_channels"
    by (simp add: not_less)
  have fmt: "fmt = ''sc16'' \<or> fmt = ''sc8''"
  proof (rule ccontr)
    assume "\<not> (fmt = ''sc16'' \<or> fmt = ''sc8'')"
    then have "fst (rf_blade_open_multi E s ok args nof_channels) = SRSRAN_ERROR E"
      using ok gt by (simp add: rf_blade_open_multi_def Let_def fmt_def)
    then show False using res ret by simp
  qed
  have lv: "log_level_of (parse_string args ''log_level'' ''silent'') \<noteq> None"
  proof
    assume "log_level_of (parse_string args ''log_level'' ''silent'') = None"
    then have "fst (rf_blade_open_multi E s ok args nof_channels) = SRSRAN_ERROR E"
      using ok gt fmt by (simp add: rf_blade_open_multi_def Let_def fmt_def)
    then show False using res ret by simp
  qed
  then obtain l where l: "log_level_of (parse_string args ''log_level'' ''silent'') = Some l"
    by auto
  have "ntx \<le> 2" "nrx \<le> 2"
    using le by (auto simp: ntx_def nrx_def Let_def)
  then have inv2: "handler_inv (h2\<lparr>rx_stream_enabled := False, tx_stream_enabled := False\<rparr>)"
    using fmt by (auto simp: h2_def handler_inv_def)
  have "rf_blade_open_multi E s ok args nof_channels =
          open_device E (s\<lparr>handler := h2, calls := Log_set_verbosity l # calls s\<rparr>)
            (parse_string args ''device_id'' []) (parse_string args ''tuning_mode'' ''host'')"
    using ok gt l fmt
    by (elim disjE)
       (simp_all add: rf_blade_open_multi_def Let_def lib_call_def h2_def ntx_def nrx_def fmt_def [symmetric])
  then have "handler s' = h2\<lparr>rx_stream_enabled := False, tx_stream_enabled := False\<rparr>"
    using open_device_allocated [of E _ _ _ ret s'] res by simp
  then show ?thesis
    using inv2 by simp
qed

end
